theory Spec2Isabelle
  imports Main
begin

section \<open>Values thrown and caught\<close>

text \<open>
  A JavaScript value as far as the handlers look at it: absent (\<open>undefined\<close>), a string,
  or anything else (a number, an object, \<open>null\<close>).
\<close>

datatype js = JUndefined | JStr string | JOther

text \<open>
  The shape of a value thrown by a library (\<open>pg\<close>, the secrets client): exactly what
  \<open>isPostgresError\<close> probes. \<open>codeProp = None\<close> means \<open>'code' in e\<close> is false.
\<close>

record js_error =
  isObject :: bool
  hasMessage :: bool
  hasName :: bool
  codeProp :: "js option"
  message :: string

text \<open>
  What a handler can throw: \<open>new Error(msg)\<close> built by the handler itself, a \<open>ZodError\<close>
  raised by a schema's \<open>parse\<close>, or a value raised by a library call.
\<close>

datatype thrown = Error string | ZodError | Raised js_error

text \<open>enum PostgresErrorCodes (main.ts 23-28)\<close>

definition DUPLICATE_DATABASE :: string where "DUPLICATE_DATABASE = ''42P04''"
definition DUPLICATE_OBJECT :: string where "DUPLICATE_OBJECT = ''42710''"
definition INSUFFICIENT_PRIVILEGE :: string where "INSUFFICIENT_PRIVILEGE = ''42501''"
definition AUTHENTICATION_FAILED :: string where "AUTHENTICATION_FAILED = ''28P01''"

text \<open>
  isPostgresError (main.ts 34-50). An \<open>Error\<close> built by the handler has \<open>message\<close> and
  \<open>name\<close> but no \<open>code\<close>; neither has a \<open>ZodError\<close>.
\<close>

fun isPostgresError :: "thrown \<Rightarrow> bool" where
  "isPostgresError (Raised e) =
     (if \<not> isObject e then False
      else if \<not> (hasMessage e \<and> hasName e) then False
      else (case codeProp e of
              None \<Rightarrow> False
            | Some c \<Rightarrow> (case c of JStr _ \<Rightarrow> True | _ \<Rightarrow> False)))"
| "isPostgresError (Error _) = False"
| "isPostgresError ZodError = False"

text \<open>\<open>e.code\<close>\<close>

fun code :: "thrown \<Rightarrow> js" where
  "code (Raised e) = (case codeProp e of None \<Rightarrow> JUndefined | Some c \<Rightarrow> c)"
| "code (Error _) = JUndefined"
| "code ZodError = JUndefined"

section \<open>The outside world: secrets, the server, the log of effects\<close>

record DbCredentials =
  username :: string
  password :: string

text \<open>The configuration a \<open>pg.Client\<close> is built from (main.ts 128-137).\<close>

record pg_client =
  host :: string
  port :: nat
  user :: string
  client_password :: string
  database :: string

datatype effect = Connect pg_client | Query pg_client string | End pg_client

text \<open>
  The collaborators, as parameters. \<open>getSecretValue\<close> stands for fetching the secret,
  \<open>JSON.parse\<close> and the schema check of main.ts 92-109 together: it raises or yields a
  username and a password. The server is any deterministic state machine over \<open>'db\<close>.
\<close>

record 'db env =
  getSecretValue :: "string \<Rightarrow> js_error + DbCredentials"
  pg_connect :: "pg_client \<Rightarrow> 'db \<Rightarrow> js_error option \<times> 'db"
  pg_query :: "pg_client \<Rightarrow> string \<Rightarrow> 'db \<Rightarrow> js_error option \<times> 'db"
  pg_end :: "pg_client \<Rightarrow> 'db \<Rightarrow> js_error option \<times> 'db"

record 'db world =
  db :: 'db
  trace :: "effect list"

section \<open>LazyPostgresClientFromSecretsManager (main.ts 54-148)\<close>

record LazyPostgresClientFromSecretsManagerProps =
  m_dbSecretArn :: string
  m_dbClusterHostname :: string
  m_dbClusterPort :: nat
  m_databaseName :: string

record LazyPostgresClientFromSecretsManager =
  props :: LazyPostgresClientFromSecretsManagerProps
  client :: "pg_client option"
  credentials :: "DbCredentials option"

definition newManager :: "LazyPostgresClientFromSecretsManagerProps \<Rightarrow> LazyPostgresClientFromSecretsManager" where
  "newManager p = \<lparr>props = p, client = None, credentials = None\<rparr>"

text \<open>
  The state of one run of a handler: its two managers (local objects, mutated by their
  methods) and the world.
\<close>

datatype which = AdminM | UserM

record 'db run =
  adminMgr :: LazyPostgresClientFromSecretsManager
  userMgr :: LazyPostgresClientFromSecretsManager
  world :: "'db world"

fun mgr :: "which \<Rightarrow> 'db run \<Rightarrow> LazyPostgresClientFromSecretsManager" where
  "mgr AdminM st = adminMgr st"
| "mgr UserM st = userMgr st"

fun set_mgr :: "which \<Rightarrow> LazyPostgresClientFromSecretsManager \<Rightarrow> 'db run \<Rightarrow> 'db run" where
  "set_mgr AdminM m st = st\<lparr>adminMgr := m\<rparr>"
| "set_mgr UserM m st = st\<lparr>userMgr := m\<rparr>"

subsection \<open>Sequencing with exceptions\<close>

type_synonym ('s, 'a) prog = "'s \<Rightarrow> (thrown + 'a) \<times> 's"

definition ret :: "'a \<Rightarrow> ('s, 'a) prog" where
  "ret x s = (Inr x, s)"

definition throw :: "thrown \<Rightarrow> ('s, 'a) prog" where
  "throw e s = (Inl e, s)"

definition andThen :: "('s, 'a) prog \<Rightarrow> ('a \<Rightarrow> ('s, 'b) prog) \<Rightarrow> ('s, 'b) prog" where
  "andThen m f s = (case m s of (Inl e, s') \<Rightarrow> (Inl e, s') | (Inr x, s') \<Rightarrow> f x s')"

definition tryCatch :: "('s, 'a) prog \<Rightarrow> (thrown \<Rightarrow> ('s, 'a) prog) \<Rightarrow> ('s, 'a) prog" where
  "tryCatch m h s = (case m s of (Inl e, s') \<Rightarrow> h e s' | (Inr x, s') \<Rightarrow> (Inr x, s'))"

subsection \<open>Calls on a \<open>pg.Client\<close>\<close>

definition record_effect :: "effect \<Rightarrow> 'db \<Rightarrow> 'db run \<Rightarrow> 'db run" where
  "record_effect ev d st = st\<lparr>world := \<lparr>db = d, trace = trace (world st) @ [ev]\<rparr>\<rparr>"

definition outcome :: "js_error option \<Rightarrow> thrown + unit" where
  "outcome r = (case r of None \<Rightarrow> Inr () | Some e \<Rightarrow> Inl (Raised e))"

definition connect :: "'db env \<Rightarrow> pg_client \<Rightarrow> ('db run, unit) prog" where
  "connect env c st =
     (case pg_connect env c (db (world st)) of
        (r, d) \<Rightarrow> (outcome r, record_effect (Connect c) d st))"

definition query :: "'db env \<Rightarrow> pg_client \<Rightarrow> string \<Rightarrow> ('db run, unit) prog" where
  "query env c sql st =
     (case pg_query env c sql (db (world st)) of
        (r, d) \<Rightarrow> (outcome r, record_effect (Query c sql) d st))"

definition end_client :: "'db env \<Rightarrow> pg_client \<Rightarrow> ('db run, unit) prog" where
  "end_client env c st =
     (case pg_end env c (db (world st)) of
        (r, d) \<Rightarrow> (outcome r, record_effect (End c) d st))"

subsection \<open>The manager's methods\<close>

text \<open>getCredentials (main.ts 87-117): cached, else resolved and stored.\<close>

definition getCredentials :: "'db env \<Rightarrow> which \<Rightarrow> ('db run, DbCredentials) prog" where
  "getCredentials env k st =
     (case credentials (mgr k st) of
        Some c \<Rightarrow> (Inr c, st)
      | None \<Rightarrow>
          (case getSecretValue env (m_dbSecretArn (props (mgr k st))) of
             Inl e \<Rightarrow> (Inl (Raised e), st)
           | Inr c \<Rightarrow> (Inr c, set_mgr k ((mgr k st)\<lparr>credentials := Some c\<rparr>) st)))"

text \<open>The client a manager builds for given credentials, \<open>new pg.Client\<close> (main.ts 128-137).\<close>

definition clientFor :: "LazyPostgresClientFromSecretsManager \<Rightarrow> DbCredentials \<Rightarrow> pg_client" where
  "clientFor m cr =
     \<lparr>host = m_dbClusterHostname (props m), port = m_dbClusterPort (props m),
      user = username cr, client_password = password cr, database = m_databaseName (props m)\<rparr>"

text \<open>
  getClient (main.ts 119-141): cached, else built from the credentials and connected.
  \<open>this.client\<close> is assigned before \<open>connect\<close> is awaited, so it stays set when
  \<open>connect\<close> raises.
\<close>

definition getClient :: "'db env \<Rightarrow> which \<Rightarrow> ('db run, pg_client) prog" where
  "getClient env k st =
     (case client (mgr k st) of
        Some c \<Rightarrow> (Inr c, st)
      | None \<Rightarrow>
          andThen
            (case credentials (mgr k st) of
               None \<Rightarrow> getCredentials env k
             | Some cr \<Rightarrow> ret cr)
            (\<lambda>cr st1.
               let c = clientFor (mgr k st1) cr
               in andThen (connect env c) (\<lambda>_. ret c)
                    (set_mgr k ((mgr k st1)\<lparr>client := Some c\<rparr>) st1))
            st)"

text \<open>end (main.ts 143-147)\<close>

definition end_mgr :: "'db env \<Rightarrow> which \<Rightarrow> ('db run, unit) prog" where
  "end_mgr env k st =
     (case client (mgr k st) of
        Some c \<Rightarrow> end_client env c st
      | None \<Rightarrow> (Inr (), st))"

section \<open>Events and responses (main.ts 17-19, 155-194)\<close>

datatype OnDelete = Delete | Retain
datatype OnCreateIfExists = Fail | Adopt | DeleteAndRecreate
datatype IgnoreOrCreate = Ignore | Create
datatype AlwaysOrNever = Always | Never

record CustomResourceProperties =
  dbClusterHostname :: string
  dbClusterPort :: nat
  dbSecretArn :: string
  userSecretArn :: string
  databaseName :: string
  onDelete :: OnDelete
  onCreateIfExists :: OnCreateIfExists
  onUpdateIfUserDoesNotExist :: IgnoreOrCreate
  onUpdateIfDatabaseDoesNotExist :: IgnoreOrCreate
  onUpdateSetUserPassword :: AlwaysOrNever
  onUpdateSetUserPermissions :: AlwaysOrNever
  onUpdateSetDatabaseOwnership :: AlwaysOrNever

record CreateEvent =
  ResourceProperties :: CustomResourceProperties

record UpdateEvent = CreateEvent +
  PhysicalResourceId :: string

type_synonym DeleteEvent = UpdateEvent

datatype Event = EvCreate CreateEvent | EvUpdate UpdateEvent | EvDelete DeleteEvent

record Response =
  r_PhysicalResourceId :: string

text \<open>\<open>Array.prototype.join\<close> on an array of strings.\<close>

fun join :: "string \<Rightarrow> string list \<Rightarrow> string" where
  "join sep [] = []"
| "join sep [x] = x"
| "join sep (x # y # ys) = x @ sep @ join sep (y # ys)"

section \<open>The statements the handlers build\<close>

definition sq :: string where
  "sq = [CHR 0x27]"

definition sql_createUser :: "DbCredentials \<Rightarrow> string" where
  "sql_createUser cr =
     ''CREATE USER '' @ username cr @ '' WITH PASSWORD '' @ sq @ password cr @ sq @ '' CREATEDB LOGIN;''"

definition sql_alterUserPassword :: "DbCredentials \<Rightarrow> string" where
  "sql_alterUserPassword cr =
     ''ALTER USER '' @ username cr @ '' WITH PASSWORD '' @ sq @ password cr @ sq @ '';''"

definition sql_alterUserPermissions :: "DbCredentials \<Rightarrow> string" where
  "sql_alterUserPermissions cr = ''ALTER USER '' @ username cr @ '' WITH CREATEDB LOGIN;''"

definition sql_dropUser :: "DbCredentials \<Rightarrow> string" where
  "sql_dropUser cr = ''DROP USER '' @ username cr @ '';''"

definition sql_createDatabase :: "string \<Rightarrow> string" where
  "sql_createDatabase d = ''CREATE DATABASE '' @ d @ '';''"

definition sql_alterDatabaseOwner :: "string \<Rightarrow> DbCredentials \<Rightarrow> string" where
  "sql_alterDatabaseOwner d cr = ''ALTER DATABASE '' @ d @ '' OWNER TO '' @ username cr @ '';''"

definition sql_dropDatabase :: "string \<Rightarrow> string" where
  "sql_dropDatabase d = ''DROP DATABASE '' @ d @ '';''"

definition sql_dropDatabaseIfExists :: "string \<Rightarrow> string" where
  "sql_dropDatabaseIfExists d = ''DROP DATABASE IF EXISTS '' @ d @ '';''"

definition sql_dropUserIfExists :: "DbCredentials \<Rightarrow> string" where
  "sql_dropUserIfExists cr = ''DROP USER IF EXISTS '' @ username cr @ '';''"

section \<open>The handlers\<close>

text \<open>
  \<open>log\<close> (main.ts 151-153) writes a line to the console and touches neither the server
  nor the managers; the calls to it are left out.
\<close>

text \<open>The two managers every handler builds, before any of their methods has run.\<close>

definition adminManagerFor :: "CustomResourceProperties \<Rightarrow> LazyPostgresClientFromSecretsManager" where
  "adminManagerFor rp =
     newManager \<lparr>m_dbSecretArn = dbSecretArn rp, m_dbClusterHostname = dbClusterHostname rp,
                 m_dbClusterPort = dbClusterPort rp, m_databaseName = ''postgres''\<rparr>"

definition userManagerFor :: "CustomResourceProperties \<Rightarrow> LazyPostgresClientFromSecretsManager" where
  "userManagerFor rp =
     newManager \<lparr>m_dbSecretArn = userSecretArn rp, m_dbClusterHostname = dbClusterHostname rp,
                 m_dbClusterPort = dbClusterPort rp, m_databaseName = databaseName rp\<rparr>"

definition start :: "CustomResourceProperties \<Rightarrow> 'db world \<Rightarrow> 'db run" where
  "start rp w = \<lparr>adminMgr = adminManagerFor rp, userMgr = userManagerFor rp, world = w\<rparr>"

definition finish :: "(thrown + 'a) \<times> 'db run \<Rightarrow> (thrown + 'a) \<times> 'db world" where
  "finish r = (fst r, world (snd r))"

definition collisionError :: thrown where
  "collisionError = Error ''Cannot create user with same name as the admin user''"

definition identityError :: thrown where
  "identityError = Error ''Cannot change database name or username''"

subsection \<open>handleCreate (main.ts 234-320)\<close>

text \<open>The user-creation step, main.ts 264-283.\<close>

definition handleCreate_user ::
  "'db env \<Rightarrow> CustomResourceProperties \<Rightarrow> DbCredentials \<Rightarrow> pg_client \<Rightarrow> ('db run, unit) prog" where
  "handleCreate_user env rp userCredentials adminClient =
     tryCatch (query env adminClient (sql_createUser userCredentials))
       (\<lambda>e. if \<not> isPostgresError e then throw e
             else if onCreateIfExists rp = Adopt \<and> code e = JStr DUPLICATE_OBJECT then
               andThen (query env adminClient (sql_alterUserPassword userCredentials))
                 (\<lambda>_. query env adminClient (sql_alterUserPermissions userCredentials))
             else if onCreateIfExists rp = DeleteAndRecreate \<and> code e = JStr DUPLICATE_OBJECT then
               andThen (query env adminClient (sql_dropUser userCredentials))
                 (\<lambda>_. query env adminClient (sql_createUser userCredentials))
             else throw e)"

text \<open>The database-creation step, main.ts 288-312.\<close>

definition handleCreate_database ::
  "'db env \<Rightarrow> CustomResourceProperties \<Rightarrow> DbCredentials \<Rightarrow> pg_client \<Rightarrow> pg_client \<Rightarrow> ('db run, unit) prog" where
  "handleCreate_database env rp userCredentials adminClient userClient =
     tryCatch (query env userClient (sql_createDatabase (databaseName rp)))
       (\<lambda>e. if \<not> isPostgresError e then throw e
             else if onCreateIfExists rp = Adopt \<and> code e = JStr DUPLICATE_DATABASE then
               query env adminClient (sql_alterDatabaseOwner (databaseName rp) userCredentials)
             else if onCreateIfExists rp = DeleteAndRecreate then
               (if code e = JStr DUPLICATE_DATABASE then
                  andThen (query env adminClient (sql_dropDatabase (databaseName rp)))
                    (\<lambda>_. query env userClient (sql_createDatabase (databaseName rp)))
                else ret ())
             else throw e)"

definition handleCreate_run :: "'db env \<Rightarrow> CreateEvent \<Rightarrow> ('db run, Response) prog" where
  "handleCreate_run env event =
     (let rp = ResourceProperties event in
      andThen (getCredentials env UserM) (\<lambda>userCredentials.
      andThen (getCredentials env AdminM) (\<lambda>adminCredentials.
        if username userCredentials = username adminCredentials then throw collisionError
        else
          andThen (getClient env AdminM) (\<lambda>adminClient.
          andThen (handleCreate_user env rp userCredentials adminClient) (\<lambda>_.
          andThen (getClient env UserM) (\<lambda>userClient.
          andThen (handleCreate_database env rp userCredentials adminClient userClient) (\<lambda>_.
          andThen (end_client env adminClient) (\<lambda>_.
          andThen (end_client env userClient) (\<lambda>_.
            ret \<lparr>r_PhysicalResourceId =
                   join ''/'' [dbClusterHostname rp, databaseName rp, username userCredentials]\<rparr>)))))))))"

definition handleCreate :: "'db env \<Rightarrow> CreateEvent \<Rightarrow> 'db world \<Rightarrow> (thrown + Response) \<times> 'db world" where
  "handleCreate env event w = finish (handleCreate_run env event (start (ResourceProperties event) w))"

subsection \<open>handleUpdate (main.ts 322-414)\<close>

text \<open>The five policy-guarded steps, in the order of the source.\<close>

definition update_userExistence ::
  "'db env \<Rightarrow> CustomResourceProperties \<Rightarrow> DbCredentials \<Rightarrow> ('db run, unit) prog" where
  "update_userExistence env rp userCredentials =
     (if onUpdateIfUserDoesNotExist rp = Create then
        tryCatch
          (andThen (getClient env AdminM)
             (\<lambda>client. query env client (sql_createUser userCredentials)))
          (\<lambda>e. if \<not> isPostgresError e then throw e
                else if code e \<noteq> JStr DUPLICATE_OBJECT then throw e
                else ret ())
      else ret ())"

definition update_userPassword ::
  "'db env \<Rightarrow> CustomResourceProperties \<Rightarrow> DbCredentials \<Rightarrow> ('db run, unit) prog" where
  "update_userPassword env rp userCredentials =
     (if onUpdateSetUserPassword rp = Always then
        andThen (getClient env AdminM)
          (\<lambda>client. query env client (sql_alterUserPassword userCredentials))
      else ret ())"

definition update_userPermissions ::
  "'db env \<Rightarrow> CustomResourceProperties \<Rightarrow> DbCredentials \<Rightarrow> ('db run, unit) prog" where
  "update_userPermissions env rp userCredentials =
     (if onUpdateSetUserPermissions rp = Always then
        andThen (getClient env AdminM)
          (\<lambda>client. query env client (sql_alterUserPermissions userCredentials))
      else ret ())"

definition update_databaseExistence ::
  "'db env \<Rightarrow> CustomResourceProperties \<Rightarrow> ('db run, unit) prog" where
  "update_databaseExistence env rp =
     (if onUpdateIfDatabaseDoesNotExist rp = Create then
        tryCatch
          (andThen (getClient env UserM)
             (\<lambda>client. query env client (sql_createDatabase (databaseName rp))))
          (\<lambda>e. if \<not> isPostgresError e then throw e
                else if code e \<noteq> JStr DUPLICATE_DATABASE then throw e
                else ret ())
      else ret ())"

definition update_databaseOwnership ::
  "'db env \<Rightarrow> CustomResourceProperties \<Rightarrow> DbCredentials \<Rightarrow> ('db run, unit) prog" where
  "update_databaseOwnership env rp userCredentials =
     (if onUpdateSetDatabaseOwnership rp = Always then
        andThen (getClient env AdminM)
          (\<lambda>client. query env client (sql_alterDatabaseOwner (databaseName rp) userCredentials))
      else ret ())"

definition handleUpdate_run :: "'db env \<Rightarrow> UpdateEvent \<Rightarrow> ('db run, Response) prog" where
  "handleUpdate_run env event =
     (let rp = ResourceProperties event in
      andThen (getCredentials env UserM) (\<lambda>userCredentials.
        if PhysicalResourceId event \<noteq>
             join ''/'' [dbClusterHostname rp, databaseName rp, username userCredentials]
        then throw identityError
        else
          andThen (update_userExistence env rp userCredentials) (\<lambda>_.
          andThen (update_userPassword env rp userCredentials) (\<lambda>_.
          andThen (update_userPermissions env rp userCredentials) (\<lambda>_.
          andThen (update_databaseExistence env rp) (\<lambda>_.
          andThen (update_databaseOwnership env rp userCredentials) (\<lambda>_.
          andThen (end_mgr env AdminM) (\<lambda>_.
          andThen (end_mgr env UserM) (\<lambda>_.
            ret \<lparr>r_PhysicalResourceId = PhysicalResourceId event\<rparr>)))))))))"

definition handleUpdate :: "'db env \<Rightarrow> UpdateEvent \<Rightarrow> 'db world \<Rightarrow> (thrown + Response) \<times> 'db world" where
  "handleUpdate env event w = finish (handleUpdate_run env event (start (ResourceProperties event) w))"

subsection \<open>handleDelete (main.ts 416-458)\<close>

definition handleDelete_run :: "'db env \<Rightarrow> DeleteEvent \<Rightarrow> ('db run, Response) prog" where
  "handleDelete_run env event =
     (let rp = ResourceProperties event in
      if onDelete rp = Retain then ret \<lparr>r_PhysicalResourceId = PhysicalResourceId event\<rparr>
      else
        andThen (getCredentials env UserM) (\<lambda>userCredentials.
        andThen (getCredentials env AdminM) (\<lambda>adminCredentials.
          if username userCredentials = username adminCredentials then throw collisionError
          else
            andThen (getClient env AdminM) (\<lambda>adminClient.
            andThen (query env adminClient (sql_dropDatabaseIfExists (databaseName rp))) (\<lambda>_.
            andThen (query env adminClient (sql_dropUserIfExists userCredentials)) (\<lambda>_.
            andThen (end_client env adminClient) (\<lambda>_.
              ret \<lparr>r_PhysicalResourceId = PhysicalResourceId event\<rparr>)))))))"

definition handleDelete :: "'db env \<Rightarrow> DeleteEvent \<Rightarrow> 'db world \<Rightarrow> (thrown + Response) \<times> 'db world" where
  "handleDelete env event w = finish (handleDelete_run env event (start (ResourceProperties event) w))"

subsection \<open>The dispatch of handler (main.ts 460-471), on a decoded event\<close>

fun dispatch :: "'db env \<Rightarrow> Event \<Rightarrow> 'db world \<Rightarrow> (thrown + Response) \<times> 'db world" where
  "dispatch env (EvCreate ev) w = handleCreate env ev w"
| "dispatch env (EvUpdate ev) w = handleUpdate env ev w"
| "dispatch env (EvDelete ev) w = handleDelete env ev w"

subsection \<open>decodeEvent and handler (main.ts 155-168, 196-232, 460-471)\<close>

text \<open>
  The event as it arrives, an object whose fields are still unchecked. A field that is
  absent reads \<open>JUndefined\<close>; \<open>raw_ResourceProperties = None\<close> is a field that is absent
  or not an object.
\<close>

record raw_properties =
  raw_dbClusterHostname :: js
  raw_dbClusterPort :: js
  raw_dbSecretArn :: js
  raw_userSecretArn :: js
  raw_databaseName :: js
  raw_onDelete :: js
  raw_onCreateIfExists :: js
  raw_onUpdateIfUserDoesNotExist :: js
  raw_onUpdateIfDatabaseDoesNotExist :: js
  raw_onUpdateSetUserPassword :: js
  raw_onUpdateSetUserPermissions :: js
  raw_onUpdateSetDatabaseOwnership :: js

record raw_event =
  raw_RequestType :: js
  raw_PhysicalResourceId :: js
  raw_ResourceProperties :: "raw_properties option"

text \<open>\<open>z.string()\<close>\<close>

fun z_string :: "js \<Rightarrow> string option" where
  "z_string (JStr s) = Some s"
| "z_string _ = None"

text \<open>\<open>z.enum([...])\<close>: a string that is one of the listed values.\<close>

fun z_enum :: "(string \<times> 'a) list \<Rightarrow> js \<Rightarrow> 'a option" where
  "z_enum table (JStr s) = map_of table s"
| "z_enum table _ = None"

text \<open>
  \<open>z.string().regex(/^\d+$/).transform(Number)\<close>: a non-empty string of decimal digits,
  read as a number. (\<open>Number\<close> rounds beyond 2^53; the value here is the exact one.)
\<close>

definition is_digit :: "char \<Rightarrow> bool" where
  "is_digit c = (c \<in> set ''0123456789'')"

definition digits_value :: "string \<Rightarrow> nat" where
  "digits_value s = foldl (\<lambda>n c. 10 * n + (of_char c - 48)) 0 s"

fun z_port :: "js \<Rightarrow> nat option" where
  "z_port (JStr s) = (if s \<noteq> [] \<and> list_all is_digit s then Some (digits_value s) else None)"
| "z_port _ = None"

text \<open>customResourcePropertiesSchema (main.ts 155-168): every field is required.\<close>

definition customResourcePropertiesSchema :: "raw_properties \<Rightarrow> CustomResourceProperties option" where
  "customResourcePropertiesSchema r =
     Option.bind (z_string (raw_dbClusterHostname r)) (\<lambda>h.
     Option.bind (z_port (raw_dbClusterPort r)) (\<lambda>p.
     Option.bind (z_string (raw_dbSecretArn r)) (\<lambda>a.
     Option.bind (z_string (raw_userSecretArn r)) (\<lambda>u.
     Option.bind (z_string (raw_databaseName r)) (\<lambda>d.
     Option.bind (z_enum [(''Delete'', Delete), (''Retain'', Retain)] (raw_onDelete r)) (\<lambda>od.
     Option.bind (z_enum [(''Fail'', Fail), (''Adopt'', Adopt), (''DeleteAndRecreate'', DeleteAndRecreate)]
                    (raw_onCreateIfExists r)) (\<lambda>oc.
     Option.bind (z_enum [(''Ignore'', Ignore), (''Create'', Create)] (raw_onUpdateIfUserDoesNotExist r)) (\<lambda>ou.
     Option.bind (z_enum [(''Ignore'', Ignore), (''Create'', Create)] (raw_onUpdateIfDatabaseDoesNotExist r)) (\<lambda>ob.
     Option.bind (z_enum [(''Always'', Always), (''Never'', Never)] (raw_onUpdateSetUserPassword r)) (\<lambda>sp.
     Option.bind (z_enum [(''Always'', Always), (''Never'', Never)] (raw_onUpdateSetUserPermissions r)) (\<lambda>sm.
     Option.bind (z_enum [(''Always'', Always), (''Never'', Never)] (raw_onUpdateSetDatabaseOwnership r)) (\<lambda>so.
       Some \<lparr>dbClusterHostname = h, dbClusterPort = p, dbSecretArn = a, userSecretArn = u,
             databaseName = d, onDelete = od, onCreateIfExists = oc,
             onUpdateIfUserDoesNotExist = ou, onUpdateIfDatabaseDoesNotExist = ob,
             onUpdateSetUserPassword = sp, onUpdateSetUserPermissions = sm,
             onUpdateSetDatabaseOwnership = so\<rparr>))))))))))))"

definition parse_properties :: "raw_event \<Rightarrow> CustomResourceProperties option" where
  "parse_properties event =
     (case raw_ResourceProperties event of
        None \<Rightarrow> None
      | Some r \<Rightarrow> customResourcePropertiesSchema r)"

definition decodeEvent :: "raw_event \<Rightarrow> thrown + Event" where
  "decodeEvent event =
     (case raw_RequestType event of
        JStr t \<Rightarrow>
          (if t = ''Create'' then
             (case parse_properties event of
                None \<Rightarrow> Inl ZodError
              | Some rp \<Rightarrow> Inr (EvCreate \<lparr>ResourceProperties = rp\<rparr>))
           else if t = ''Update'' then
             (case (z_string (raw_PhysicalResourceId event), parse_properties event) of
                (Some i, Some rp) \<Rightarrow> Inr (EvUpdate \<lparr>ResourceProperties = rp, PhysicalResourceId = i\<rparr>)
              | _ \<Rightarrow> Inl ZodError)
           else if t = ''Delete'' then
             (case (z_string (raw_PhysicalResourceId event), parse_properties event) of
                (Some i, Some rp) \<Rightarrow> Inr (EvDelete \<lparr>ResourceProperties = rp, PhysicalResourceId = i\<rparr>)
              | _ \<Rightarrow> Inl ZodError)
           else Inl ZodError)
      | _ \<Rightarrow> Inl ZodError)"

definition handler :: "'db env \<Rightarrow> raw_event \<Rightarrow> 'db world \<Rightarrow> (thrown + Response) \<times> 'db world" where
  "handler env event w =
     (case decodeEvent event of
        Inl e \<Rightarrow> (Inl e, w)
      | Inr validatedEvent \<Rightarrow> dispatch env validatedEvent w)"

section \<open>The construct's request (CHANGELOG.md 55-85, 177-194)\<close>

text \<open>
  The part of \<open>PostgresUserAndDatabaseProps\<close> that reaches the custom resource's
  properties: the cluster endpoint, the two secrets, the database name and the seven
  optional policies.
\<close>

record PostgresUserAndDatabaseProps =
  p_hostname :: string
  p_port :: nat
  p_dbSecretArn :: string
  p_userSecretArn :: string
  p_databaseName :: string
  p_onCreateIfExists :: "OnCreateIfExists option"
  p_onDelete :: "OnDelete option"
  p_onUpdateIfUserDoesNotExist :: "IgnoreOrCreate option"
  p_onUpdateIfDatabaseDoesNotExist :: "IgnoreOrCreate option"
  p_onUpdateSetUserPassword :: "AlwaysOrNever option"
  p_onUpdateSetUserPermissions :: "AlwaysOrNever option"
  p_onUpdateSetDatabaseOwnership :: "AlwaysOrNever option"

text \<open>\<open>a ?? b\<close>\<close>

fun nullish :: "'a option \<Rightarrow> 'a \<Rightarrow> 'a" where
  "nullish None b = b"
| "nullish (Some a) b = a"

text \<open>
  The policies are strings in the source; these are the strings of the values, and the
  decimal numeral of the port.
\<close>

fun OnDelete_name :: "OnDelete \<Rightarrow> string" where
  "OnDelete_name Delete = ''Delete''"
| "OnDelete_name Retain = ''Retain''"

fun OnCreateIfExists_name :: "OnCreateIfExists \<Rightarrow> string" where
  "OnCreateIfExists_name Fail = ''Fail''"
| "OnCreateIfExists_name Adopt = ''Adopt''"
| "OnCreateIfExists_name DeleteAndRecreate = ''DeleteAndRecreate''"

fun IgnoreOrCreate_name :: "IgnoreOrCreate \<Rightarrow> string" where
  "IgnoreOrCreate_name Ignore = ''Ignore''"
| "IgnoreOrCreate_name Create = ''Create''"

fun AlwaysOrNever_name :: "AlwaysOrNever \<Rightarrow> string" where
  "AlwaysOrNever_name Always = ''Always''"
| "AlwaysOrNever_name Never = ''Never''"

definition digit_char :: "nat \<Rightarrow> char" where
  "digit_char d = ''0123456789'' ! d"

fun decimal :: "nat \<Rightarrow> string" where
  "decimal n = (if n < 10 then [digit_char n] else decimal (n div 10) @ [digit_char (n mod 10)])"

declare decimal.simps [simp del]

text \<open>
  The \<open>properties\<close> of the custom resource, CHANGELOG.md 179-192, as the handler finds
  them in \<open>event.ResourceProperties\<close>: CloudFormation hands every scalar to the provider
  as a string, the port as its decimal numeral. The optional \<open>secretLatestVersion\<close> is
  left out; the handler's schema does not read it.
\<close>

definition resource_properties :: "PostgresUserAndDatabaseProps \<Rightarrow> raw_properties" where
  "resource_properties p =
     \<lparr>raw_dbClusterHostname = JStr (p_hostname p),
      raw_dbClusterPort = JStr (decimal (p_port p)),
      raw_dbSecretArn = JStr (p_dbSecretArn p),
      raw_userSecretArn = JStr (p_userSecretArn p),
      raw_databaseName = JStr (p_databaseName p),
      raw_onDelete = JStr (OnDelete_name (nullish (p_onDelete p) Delete)),
      raw_onCreateIfExists = JStr (OnCreateIfExists_name (nullish (p_onCreateIfExists p) Fail)),
      raw_onUpdateIfUserDoesNotExist =
        JStr (IgnoreOrCreate_name (nullish (p_onUpdateIfUserDoesNotExist p) Ignore)),
      raw_onUpdateIfDatabaseDoesNotExist =
        JStr (IgnoreOrCreate_name (nullish (p_onUpdateIfDatabaseDoesNotExist p) Ignore)),
      raw_onUpdateSetUserPassword =
        JStr (AlwaysOrNever_name (nullish (p_onUpdateSetUserPassword p) Never)),
      raw_onUpdateSetUserPermissions =
        JStr (AlwaysOrNever_name (nullish (p_onUpdateSetUserPermissions p) Never)),
      raw_onUpdateSetDatabaseOwnership =
        JStr (AlwaysOrNever_name (nullish (p_onUpdateSetDatabaseOwnership p) Never))\<rparr>"

section \<open>The secret-version handler (latest_secret_version_handler/main.ts)\<close>

record Data =
  LatestVersionId :: string

record Response_v =
  PhysicalResourceId_r :: string
  Data :: Data

record ResourceProperties_v =
  secretArn :: string
  datetime :: string

text \<open>
  OnCreateEvent, and OnUpdateEvent and OnDeleteEvent which add the PhysicalResourceId
  (main.ts 24-40).
\<close>

record OnCreateEvent =
  ResourceProperties_v :: ResourceProperties_v
  RequestType :: string

record OnUpdateEvent = OnCreateEvent +
  PhysicalResourceId_v :: string

type_synonym OnDeleteEvent = OnUpdateEvent

text \<open>What \<open>ListSecretVersionIds\<close> answers, as far as onCreate reads it.\<close>

record SecretVersion =
  VersionId :: "string option"
  VersionStages :: "string list option"

record ListSecretVersionIdsResponse =
  Versions :: "SecretVersion list option"

text \<open>The secrets service, and the log of the lookups sent to it.\<close>

type_synonym secrets_service = "string \<Rightarrow> js_error + ListSecretVersionIdsResponse"

type_synonym lookups = "string list"

text \<open>onCreate (main.ts 42-60). \<open>!latestVersionId\<close> holds of \<open>undefined\<close> and of the empty string.\<close>

definition onCreate :: "secrets_service \<Rightarrow> 'a OnCreateEvent_scheme \<Rightarrow> (lookups, Response_v) prog" where
  "onCreate send event calls =
     (let arn = secretArn (ResourceProperties_v event) in
      case send arn of
        Inl e \<Rightarrow> (Inl (Raised e), calls @ [arn])
      | Inr response \<Rightarrow>
          (let latestVersionId =
                 (case Versions response of
                    None \<Rightarrow> None
                  | Some vs \<Rightarrow>
                      (case find (\<lambda>version. case VersionStages version of
                                              None \<Rightarrow> False
                                            | Some stages \<Rightarrow> ''AWSCURRENT'' \<in> set stages) vs of
                         None \<Rightarrow> None
                       | Some version \<Rightarrow> VersionId version))
           in case latestVersionId of
                None \<Rightarrow> (Inl (Error (''No latest version found for secret '' @ arn)), calls @ [arn])
              | Some v \<Rightarrow>
                  if v = [] then (Inl (Error (''No latest version found for secret '' @ arn)), calls @ [arn])
                  else (Inr \<lparr>PhysicalResourceId_r = arn, Data = \<lparr>LatestVersionId = v\<rparr>\<rparr>, calls @ [arn])))"

text \<open>onUpdate (main.ts 62-67)\<close>

definition onUpdate :: "secrets_service \<Rightarrow> OnUpdateEvent \<Rightarrow> (lookups, Response_v) prog" where
  "onUpdate send event = onCreate send (event\<lparr>RequestType := ''Create''\<rparr>)"

text \<open>onDelete (main.ts 69-76)\<close>

definition onDelete_v :: "OnDeleteEvent \<Rightarrow> (lookups, Response_v) prog" where
  "onDelete_v event calls =
     (Inr \<lparr>PhysicalResourceId_r = secretArn (ResourceProperties_v event),
           Data = \<lparr>LatestVersionId = PhysicalResourceId_v event\<rparr>\<rparr>, calls)"

text \<open>
  The three schemas (main.ts 15-36) on an unchecked event object, and handler
  (main.ts 79-96), which tries them in turn. A schema keeps the fields it names.
\<close>

record raw_properties_v =
  raw_secretArn :: js
  raw_datetime :: js

record raw_event_v =
  raw_RequestType_v :: js
  raw_PhysicalResourceId_v :: js
  raw_ResourceProperties_v :: "raw_properties_v option"

definition resourcePropertiesSchema :: "raw_event_v \<Rightarrow> ResourceProperties_v option" where
  "resourcePropertiesSchema event =
     (case raw_ResourceProperties_v event of
        None \<Rightarrow> None
      | Some r \<Rightarrow>
          (case (z_string (raw_secretArn r), z_string (raw_datetime r)) of
             (Some a, Some d) \<Rightarrow> Some \<lparr>secretArn = a, datetime = d\<rparr>
           | _ \<Rightarrow> None))"

definition onCreateSchema :: "raw_event_v \<Rightarrow> OnCreateEvent option" where
  "onCreateSchema event =
     (case resourcePropertiesSchema event of
        None \<Rightarrow> None
      | Some rp \<Rightarrow>
          if raw_RequestType_v event = JStr ''Create''
          then Some \<lparr>ResourceProperties_v = rp, RequestType = ''Create''\<rparr>
          else None)"

definition onUpdateSchema :: "raw_event_v \<Rightarrow> OnUpdateEvent option" where
  "onUpdateSchema event =
     (case resourcePropertiesSchema event of
        None \<Rightarrow> None
      | Some rp \<Rightarrow>
          if raw_RequestType_v event = JStr ''Update''
          then (case z_string (raw_PhysicalResourceId_v event) of
                  None \<Rightarrow> None
                | Some i \<Rightarrow> Some \<lparr>ResourceProperties_v = rp, RequestType = ''Update'',
                                  PhysicalResourceId_v = i\<rparr>)
          else None)"

definition onDeleteSchema :: "raw_event_v \<Rightarrow> OnDeleteEvent option" where
  "onDeleteSchema event =
     (case resourcePropertiesSchema event of
        None \<Rightarrow> None
      | Some rp \<Rightarrow>
          if raw_RequestType_v event = JStr ''Delete''
          then (case z_string (raw_PhysicalResourceId_v event) of
                  None \<Rightarrow> None
                | Some i \<Rightarrow> Some \<lparr>ResourceProperties_v = rp, RequestType = ''Delete'',
                                  PhysicalResourceId_v = i\<rparr>)
          else None)"

definition handler_v :: "secrets_service \<Rightarrow> raw_event_v \<Rightarrow> (lookups, Response_v) prog" where
  "handler_v send event calls =
     (case onCreateSchema event of
        Some onCreateEvent \<Rightarrow> onCreate send onCreateEvent calls
      | None \<Rightarrow>
          (case onUpdateSchema event of
             Some onUpdateEvent \<Rightarrow> onUpdate send onUpdateEvent calls
           | None \<Rightarrow>
               (case onDeleteSchema event of
                  Some onDeleteEvent \<Rightarrow> onDelete_v onDeleteEvent calls
                | None \<Rightarrow> (Inl (Error ''Unexpected event type''), calls))))"

section \<open>Reading a run\<close>

text \<open>The SQL statements of a log of effects, in the order they were sent.\<close>

fun sql_of :: "effect list \<Rightarrow> string list" where
  "sql_of [] = []"
| "sql_of (Query c q # es) = q # sql_of es"
| "sql_of (Connect c # es) = sql_of es"
| "sql_of (End c # es) = sql_of es"

text \<open>Carrying out a list of calls one after the other, stopping at the first that raises.\<close>

fun perform :: "'db env \<Rightarrow> effect \<Rightarrow> ('db run, unit) prog" where
  "perform env (Connect c) = connect env c"
| "perform env (Query c q) = query env c q"
| "perform env (End c) = end_client env c"


text \<open>The statements an Update's policies select, in the order of the five steps.\<close>

definition update_statements :: "CustomResourceProperties \<Rightarrow> DbCredentials \<Rightarrow> string list" where
  "update_statements rp cr =
     (if onUpdateIfUserDoesNotExist rp = Create then [sql_createUser cr] else []) @
     (if onUpdateSetUserPassword rp = Always then [sql_alterUserPassword cr] else []) @
     (if onUpdateSetUserPermissions rp = Always then [sql_alterUserPermissions cr] else []) @
     (if onUpdateIfDatabaseDoesNotExist rp = Create then [sql_createDatabase (databaseName rp)] else []) @
     (if onUpdateSetDatabaseOwnership rp = Always
      then [sql_alterDatabaseOwner (databaseName rp) cr] else [])"

section \<open>A reference server for the two statements of Delete\<close>

text \<open>
  The server is not part of the repository. To speak about a Delete that runs twice, the two
  statements Delete sends are given the meaning PostgreSQL documents for them: with
  \<open>IF EXISTS\<close> a drop of something absent is not an error; the database a session is
  connected to, the session's own role, and a role that still owns a database cannot be
  dropped. A session opens for a role with its password on a database that exists.
\<close>

record pg_state =
  roles :: "(string \<times> string) list"
  databases :: "(string \<times> string) list"

definition pg_error :: "string \<Rightarrow> js_error" where
  "pg_error c = \<lparr>isObject = True, hasMessage = True, hasName = True,
                 codeProp = Some (JStr c), message = ''error''\<rparr>"








section \<open>Concrete inputs\<close>

definition secrets_demo :: "string \<Rightarrow> js_error + DbCredentials" where
  "secrets_demo arn =
     (if arn = ''arn:admin'' then Inr \<lparr>username = ''root'', password = ''rootpw''\<rparr>
      else if arn = ''arn:user'' then Inr \<lparr>username = ''svc'', password = ''svcpw''\<rparr>
      else Inl \<lparr>isObject = True, hasMessage = True, hasName = True, codeProp = None,
                message = ''ResourceNotFoundException''\<rparr>)"

text \<open>Both secrets name the same user.\<close>

definition secrets_same :: "string \<Rightarrow> js_error + DbCredentials" where
  "secrets_same arn = Inr \<lparr>username = ''svc'', password = ''svcpw''\<rparr>"

text \<open>A server that accepts every call.\<close>

definition accepting :: "(string \<Rightarrow> js_error + DbCredentials) \<Rightarrow> unit env" where
  "accepting secrets =
     \<lparr>getSecretValue = secrets, pg_connect = (\<lambda>c d. (None, d)),
      pg_query = (\<lambda>c q d. (None, d)), pg_end = (\<lambda>c d. (None, d))\<rparr>"

text \<open>A server that raises one error on one statement and accepts every other call.\<close>

definition failing_on :: "string \<Rightarrow> js_error \<Rightarrow> (string \<Rightarrow> js_error + DbCredentials) \<Rightarrow> unit env" where
  "failing_on stmt err secrets =
     \<lparr>getSecretValue = secrets, pg_connect = (\<lambda>c d. (None, d)),
      pg_query = (\<lambda>c q d. if q = stmt then (Some err, d) else (None, d)),
      pg_end = (\<lambda>c d. (None, d))\<rparr>"

definition props_demo :: CustomResourceProperties where
  "props_demo =
     \<lparr>dbClusterHostname = ''db.local'', dbClusterPort = 5432, dbSecretArn = ''arn:admin'',
      userSecretArn = ''arn:user'', databaseName = ''app'', onDelete = Delete,
      onCreateIfExists = Fail, onUpdateIfUserDoesNotExist = Ignore,
      onUpdateIfDatabaseDoesNotExist = Ignore, onUpdateSetUserPassword = Never,
      onUpdateSetUserPermissions = Never, onUpdateSetDatabaseOwnership = Never\<rparr>"

definition admin_demo :: pg_client where
  "admin_demo = \<lparr>host = ''db.local'', port = 5432, user = ''root'', client_password = ''rootpw'',
                 database = ''postgres''\<rparr>"

definition user_demo :: pg_client where
  "user_demo = \<lparr>host = ''db.local'', port = 5432, user = ''svc'', client_password = ''svcpw'',
                database = ''app''\<rparr>"

definition w0 :: "unit world" where
  "w0 = \<lparr>db = (), trace = []\<rparr>"

definition pg0 :: pg_state where
  "pg0 = \<lparr>roles = [(''root'', ''rootpw''), (''svc'', ''svcpw'')],
          databases = [(''postgres'', ''root''), (''app'', ''svc'')]\<rparr>"

text \<open>Raised by a library call, not built by a handler.\<close>

fun from_library :: "thrown \<Rightarrow> bool" where
  "from_library (Raised _) = True"
| "from_library _ = False"

text \<open>
  Between two states of a run: the managers still have the properties they were built
  with, and the statements \<open>qs\<close> were sent in between.
\<close>

definition kept :: "'db run \<Rightarrow> 'db run \<Rightarrow> string list \<Rightarrow> bool" where
  "kept st st' qs =
     (props (adminMgr st') = props (adminMgr st) \<and> props (userMgr st') = props (userMgr st) \<and>
      sql_of (trace (world st')) = sql_of (trace (world st)) @ qs)"


text \<open>A step of a run never takes back what was sent: it can only add to the log.\<close>

definition grows :: "('db run, 'a) prog \<Rightarrow> bool" where
  "grows m = (\<forall>st r st'. m st = (r, st') \<longrightarrow> (\<exists>rest. trace (world st') = trace (world st) @ rest))"

text \<open>
  The state of a Create's run once both secrets are resolved and the admin manager has
  built its client, before the client connects.
\<close>

definition create_ready ::
  "CustomResourceProperties \<Rightarrow> DbCredentials \<Rightarrow> DbCredentials \<Rightarrow> 'db world \<Rightarrow> 'db run" where
  "create_ready rp uc ac w =
     \<lparr>adminMgr = (adminManagerFor rp)\<lparr>client := Some (clientFor (adminManagerFor rp) ac),
                                       credentials := Some ac\<rparr>,
      userMgr = (userManagerFor rp)\<lparr>credentials := Some uc\<rparr>,
      world = w\<rparr>"



text \<open>A construct that names no policy.\<close>

definition construct_demo :: PostgresUserAndDatabaseProps where
  "construct_demo =
     \<lparr>p_hostname = ''db.local'', p_port = 5432, p_dbSecretArn = ''arn:admin'',
      p_userSecretArn = ''arn:user'', p_databaseName = ''app'',
      p_onCreateIfExists = None, p_onDelete = None, p_onUpdateIfUserDoesNotExist = None,
      p_onUpdateIfDatabaseDoesNotExist = None, p_onUpdateSetUserPassword = None,
      p_onUpdateSetUserPermissions = None, p_onUpdateSetDatabaseOwnership = None\<rparr>"

text \<open>A secret with a previous and a current version, and an Update event for it.\<close>

definition service_demo :: secrets_service where
  "service_demo arn =
     Inr \<lparr>Versions = Some [\<lparr>VersionId = Some ''v1'', VersionStages = Some [''AWSPREVIOUS'']\<rparr>,
                            \<lparr>VersionId = Some ''v2'', VersionStages = Some [''AWSCURRENT'']\<rparr>]\<rparr>"

definition raw_update_demo :: raw_event_v where
  "raw_update_demo =
     \<lparr>raw_RequestType_v = JStr ''Update'', raw_PhysicalResourceId_v = JStr ''arn:user'',
      raw_ResourceProperties_v = Some \<lparr>raw_secretArn = JStr ''arn:user'', raw_datetime = JStr ''now''\<rparr>\<rparr>"

section \<open>Unfolding the handlers\<close>

lemmas prog_defs = andThen_def ret_def throw_def tryCatch_def

lemmas mgr_defs = getCredentials_def getClient_def clientFor_def end_mgr_def connect_def query_def
  end_client_def record_effect_def outcome_def Let_def adminManagerFor_def userManagerFor_def newManager_def
  start_def finish_def

lemmas sql_defs = sql_createUser_def sql_alterUserPassword_def sql_alterUserPermissions_def
  sql_dropUser_def sql_createDatabase_def sql_alterDatabaseOwner_def sql_dropDatabase_def
  sql_dropDatabaseIfExists_def sql_dropUserIfExists_def sq_def

lemmas demo_defs = secrets_demo_def secrets_same_def accepting_def failing_on_def props_demo_def
  admin_demo_def user_demo_def w0_def pg0_def

lemmas schema_defs = onCreateSchema_def onUpdateSchema_def onDeleteSchema_def
  resourcePropertiesSchema_def

lemma sql_of_append: "sql_of (xs @ ys) = sql_of xs @ sql_of ys"
  by (induction xs rule: sql_of.induct) simp_all

subsection \<open>Sequencing\<close>

lemma andThen_ret: "andThen (ret x) f = f x"
  by (rule ext) (simp add: andThen_def ret_def)

lemma andThen_assoc: "andThen (andThen m f) g = andThen m (\<lambda>x. andThen (f x) g)"
  by (rule ext) (simp add: andThen_def split: prod.splits sum.splits)

lemma andThen_at: "m s = m' s' \<Longrightarrow> andThen m f s = andThen m' f s'"
  by (simp add: andThen_def)

lemma andThen_Inr: "m s = (Inr x, s1) \<Longrightarrow> andThen m f s = f x s1"
  by (simp add: andThen_def)

lemma andThen_Inl: "m s = (Inl e, s1) \<Longrightarrow> andThen m f s = (Inl e, s1)"
  by (simp add: andThen_def)

lemma andThen_cases:
  assumes "andThen m f s = (r, s')"
  obtains e where "m s = (Inl e, s')" "r = Inl e"
    | x s1 where "m s = (Inr x, s1)" "f x s1 = (r, s')"
  using assms by (auto simp: andThen_def split: sum.splits prod.splits)

lemma perform_trace:
  "perform env e st = (r, st') \<Longrightarrow>
   trace (world st') = trace (world st) @ [e] \<and> adminMgr st' = adminMgr st \<and> userMgr st' = userMgr st"
  by (cases e) (auto simp: connect_def query_def end_client_def record_effect_def split: prod.splits)



lemma finish_eq: "finish p = (r, w') \<Longrightarrow> \<exists>st'. p = (r, st') \<and> w' = world st'"
  by (cases p) (auto simp: finish_def)


section \<open>Identity of the resource on Update and Delete\<close>

lemma handleDelete_run_token:
  "handleDelete_run env (event\<lparr>PhysicalResourceId := t\<rparr>) st =
     (case handleDelete_run env event st of
        (Inl e, s) \<Rightarrow> (Inl e, s)
      | (Inr _, s) \<Rightarrow> (Inr \<lparr>r_PhysicalResourceId = t\<rparr>, s))"
  by (simp add: handleDelete_run_def prog_defs Let_def split: sum.splits prod.splits)

text \<open>
  C1, as the code has it. An Update whose token differs from host/database/username, the
  username being the one the user secret resolves to, fails with the identity error and
  leaves the world as it was: no connection, no statement. A Delete never looks at its
  token: whatever the token, it does the same to the world and ends the same way, and on
  success it hands the token back.
\<close>

theorem update_checks_token_delete_does_not:
  "(getSecretValue env (userSecretArn (ResourceProperties event)) = Inr uc \<and>
    PhysicalResourceId event \<noteq>
      join ''/'' [dbClusterHostname (ResourceProperties event),
                  databaseName (ResourceProperties event), username uc]
    \<longrightarrow> handleUpdate env event w = (Inl identityError, w))
   \<and> handleDelete env (devent\<lparr>PhysicalResourceId := t\<rparr>) w =
       (map_sum id (\<lambda>_. \<lparr>r_PhysicalResourceId = t\<rparr>) (fst (handleDelete env devent w)),
        snd (handleDelete env devent w))"
proof (intro conjI impI)
  assume "getSecretValue env (userSecretArn (ResourceProperties event)) = Inr uc \<and>
    PhysicalResourceId event \<noteq>
      join ''/'' [dbClusterHostname (ResourceProperties event),
                  databaseName (ResourceProperties event), username uc]"
  then show "handleUpdate env event w = (Inl identityError, w)"
    by (simp add: handleUpdate_def handleUpdate_run_def prog_defs mgr_defs)
next
  show "handleDelete env (devent\<lparr>PhysicalResourceId := t\<rparr>) w =
       (map_sum id (\<lambda>_. \<lparr>r_PhysicalResourceId = t\<rparr>) (fst (handleDelete env devent w)),
        snd (handleDelete env devent w))"
    by (simp add: handleDelete_def finish_def handleDelete_run_token split: sum.splits prod.splits)
qed

theorem update_checks_token_witness:
  "getSecretValue (accepting secrets_demo) (userSecretArn props_demo)
     = Inr \<lparr>username = ''svc'', password = ''svcpw''\<rparr>
   \<and> ''other.host/shop/bob'' \<noteq> join ''/'' [dbClusterHostname props_demo, databaseName props_demo, ''svc'']
   \<and> handleUpdate (accepting secrets_demo)
        \<lparr>ResourceProperties = props_demo, PhysicalResourceId = ''other.host/shop/bob''\<rparr> w0
      = (Inl identityError, w0)"
  using update_checks_token_delete_does_not [of "accepting secrets_demo"
      "\<lparr>ResourceProperties = props_demo, PhysicalResourceId = ''other.host/shop/bob''\<rparr>"
      "\<lparr>username = ''svc'', password = ''svcpw''\<rparr>" w0]
  by (simp add: demo_defs)

text \<open>When the user secret does not resolve, an Update fails with what the lookup raised, the world untouched.\<close>

lemma update_secret_unresolved:
  "getSecretValue env (userSecretArn (ResourceProperties event)) = Inl x \<Longrightarrow>
   handleUpdate env event w = (Inl (Raised x), w)"
  by (simp add: handleUpdate_def handleUpdate_run_def prog_defs mgr_defs)

text \<open>
  C1 as stated fails for Delete: a Delete whose token is not host/database/username of its
  properties is carried out, both drops are sent, and it succeeds.
\<close>

theorem delete_unchecked_counterexample:
  "PhysicalResourceId \<lparr>ResourceProperties = props_demo, PhysicalResourceId = ''other.host/shop/bob''\<rparr>
     \<noteq> join ''/'' [dbClusterHostname props_demo, databaseName props_demo, ''svc'']
   \<and> getSecretValue (accepting secrets_demo) (userSecretArn props_demo)
       = Inr \<lparr>username = ''svc'', password = ''svcpw''\<rparr>
   \<and> handleDelete (accepting secrets_demo)
       \<lparr>ResourceProperties = props_demo, PhysicalResourceId = ''other.host/shop/bob''\<rparr> w0
     = (Inr \<lparr>r_PhysicalResourceId = ''other.host/shop/bob''\<rparr>,
        \<lparr>db = (), trace = [Connect admin_demo, Query admin_demo ''DROP DATABASE IF EXISTS app;'',
                            Query admin_demo ''DROP USER IF EXISTS svc;'', End admin_demo]\<rparr>)"
  by (simp add: handleDelete_def handleDelete_run_def prog_defs mgr_defs sql_defs demo_defs
      collisionError_def)

section \<open>Create\<close>

text \<open>
  C3. A Create whose two secrets resolve to the same username fails with the collision
  error, and the world is as before: no connection was opened and no statement sent.
\<close>

theorem create_collision:
  assumes "getSecretValue env (userSecretArn (ResourceProperties event)) = Inr uc"
    and "getSecretValue env (dbSecretArn (ResourceProperties event)) = Inr ac"
    and "username uc = username ac"
  shows "handleCreate env event w = (Inl collisionError, w)"
  using assms by (simp add: handleCreate_def handleCreate_run_def prog_defs mgr_defs)

theorem create_collision_witness:
  "getSecretValue (accepting secrets_same) (userSecretArn props_demo)
     = Inr \<lparr>username = ''svc'', password = ''svcpw''\<rparr>
   \<and> getSecretValue (accepting secrets_same) (dbSecretArn props_demo)
     = Inr \<lparr>username = ''svc'', password = ''svcpw''\<rparr>
   \<and> handleCreate (accepting secrets_same) \<lparr>ResourceProperties = props_demo\<rparr> w0
     = (Inl collisionError, w0)"
  using create_collision [of "accepting secrets_same" "\<lparr>ResourceProperties = props_demo\<rparr>"
      "\<lparr>username = ''svc'', password = ''svcpw''\<rparr>" "\<lparr>username = ''svc'', password = ''svcpw''\<rparr>" w0]
  by (simp add: accepting_def secrets_same_def)

text \<open>Every step of a handler only adds to the log of effects.\<close>

lemma growsI: "(\<And>st r st'. m st = (r, st') \<Longrightarrow> \<exists>rest. trace (world st') = trace (world st) @ rest) \<Longrightarrow> grows m"
  by (auto simp: grows_def)

lemma growsD: "grows m \<Longrightarrow> m st = (r, st') \<Longrightarrow> \<exists>rest. trace (world st') = trace (world st) @ rest"
  by (auto simp: grows_def)

lemma grows_ret: "grows (ret x)"
  by (simp add: grows_def ret_def)

lemma grows_throw: "grows (throw e)"
  by (simp add: grows_def throw_def)

lemma grows_andThen:
  assumes "grows m" and "\<And>x. grows (f x)"
  shows "grows (andThen m f)"
proof (rule growsI)
  fix st r st' assume "andThen m f st = (r, st')"
  then show "\<exists>rest. trace (world st') = trace (world st) @ rest"
  proof (cases rule: andThen_cases)
    case (1 e)
    with assms(1) show ?thesis by (auto dest: growsD)
  next
    case (2 x s1)
    from growsD [OF assms(1) 2(1)] growsD [OF assms(2) 2(2)] show ?thesis by auto
  qed
qed

lemma grows_tryCatch:
  assumes "grows m" and "\<And>e. grows (h e)"
  shows "grows (tryCatch m h)"
proof (rule growsI)
  fix st r st' assume t: "tryCatch m h st = (r, st')"
  obtain r1 s1 where m: "m st = (r1, s1)" by (cases "m st")
  note g1 = growsD [OF assms(1) m]
  show "\<exists>rest. trace (world st') = trace (world st) @ rest"
  proof (cases r1)
    case (Inl e)
    with t m have "h e s1 = (r, st')" by (simp add: tryCatch_def)
    from growsD [OF assms(2) this] g1 show ?thesis by auto
  next
    case (Inr x)
    with t m have "st' = s1" by (simp add: tryCatch_def)
    with g1 show ?thesis by simp
  qed
qed

lemma grows_perform: "grows (perform env e)"
  by (rule growsI) (auto dest: perform_trace)

lemma grows_query: "grows (query env c q)"
  using grows_perform [of env "Query c q"] by simp

lemma grows_connect: "grows (connect env c)"
  using grows_perform [of env "Connect c"] by simp

lemma grows_end_client: "grows (end_client env c)"
  using grows_perform [of env "End c"] by simp

lemma world_set_mgr: "world (set_mgr k m st) = world st"
  by (cases k) simp_all

lemma grows_getCredentials: "grows (getCredentials env k)"
  by (rule growsI) (auto simp: getCredentials_def world_set_mgr split: option.splits sum.splits)

lemma grows_getClient: "grows (getClient env k)"
proof (rule growsI)
  fix st r st' assume g: "getClient env k st = (r, st')"
  show "\<exists>rest. trace (world st') = trace (world st) @ rest"
  proof (cases "client (mgr k st)")
    case (Some c)
    with g show ?thesis by (simp add: getClient_def)
  next
    case None
    let ?m = "case credentials (mgr k st) of None \<Rightarrow> getCredentials env k | Some cr \<Rightarrow> ret cr"
    let ?f = "\<lambda>cr st1. andThen (connect env (clientFor (mgr k st1) cr)) (\<lambda>_. ret (clientFor (mgr k st1) cr))
                 (set_mgr k ((mgr k st1)\<lparr>client := Some (clientFor (mgr k st1) cr)\<rparr>) st1)"
    have gm: "grows ?m"
      by (simp add: grows_getCredentials grows_ret split: option.splits)
    have gf: "grows (?f cr)" for cr
    proof (rule growsI)
      fix s1 r1 s2 assume a: "?f cr s1 = (r1, s2)"
      have "grows (andThen (connect env (clientFor (mgr k s1) cr)) (\<lambda>_. ret (clientFor (mgr k s1) cr)))"
        by (intro grows_andThen grows_connect grows_ret)
      from growsD [OF this a] show "\<exists>rest. trace (world s2) = trace (world s1) @ rest"
        by (simp add: world_set_mgr)
    qed
    from g None have "andThen ?m ?f st = (r, st')"
      by (simp add: getClient_def Let_def)
    from growsD [OF grows_andThen [OF gm gf] this] show ?thesis .
  qed
qed

lemma grows_handleCreate_database: "grows (handleCreate_database env rp uc ac c)"
  unfolding handleCreate_database_def
  by (intro grows_tryCatch grows_query) (auto intro: grows_throw grows_query grows_andThen grows_ret)

text \<open>One call on a client, spelled out.\<close>

lemma query_unfold:
  "query env c q st =
     (outcome (fst (pg_query env c q (db (world st)))),
      record_effect (Query c q) (snd (pg_query env c q (db (world st)))) st)"
  by (simp add: query_def case_prod_beta)

lemma connect_unfold:
  "connect env c st =
     (outcome (fst (pg_connect env c (db (world st)))),
      record_effect (Connect c) (snd (pg_connect env c (db (world st)))) st)"
  by (simp add: connect_def case_prod_beta)

text \<open>What the catch block of the user-creation step does with what CREATE USER raised.\<close>

lemma handleCreate_user_raised:
  assumes "query env adminClient (sql_createUser uc) st = (Inl e, st1)"
  shows "handleCreate_user env rp uc adminClient st =
     (if isPostgresError e \<and> code e = JStr DUPLICATE_OBJECT \<and> onCreateIfExists rp = Adopt
      then andThen (query env adminClient (sql_alterUserPassword uc))
             (\<lambda>_. query env adminClient (sql_alterUserPermissions uc)) st1
      else if isPostgresError e \<and> code e = JStr DUPLICATE_OBJECT \<and> onCreateIfExists rp = DeleteAndRecreate
      then andThen (query env adminClient (sql_dropUser uc))
             (\<lambda>_. query env adminClient (sql_createUser uc)) st1
      else (Inl e, st1))"
  using assms by (auto simp: handleCreate_user_def tryCatch_def throw_def)

text \<open>
  Once both secrets are resolved to different usernames, a Create connects the admin
  client, runs the user-creation step and goes on with steps that only add to the log.
\<close>

lemma handleCreate_resolved:
  assumes u: "getSecretValue env (userSecretArn (ResourceProperties event)) = Inr uc"
    and a: "getSecretValue env (dbSecretArn (ResourceProperties event)) = Inr ac"
    and ne: "username uc \<noteq> username ac"
  obtains K where "grows K"
    and "handleCreate env event w =
      finish (andThen (connect env (clientFor (adminManagerFor (ResourceProperties event)) ac))
        (\<lambda>_. andThen (handleCreate_user env (ResourceProperties event) uc
                        (clientFor (adminManagerFor (ResourceProperties event)) ac)) (\<lambda>_. K))
        (create_ready (ResourceProperties event) uc ac w))"
proof -
  let ?rp = "ResourceProperties event"
  let ?c = "clientFor (adminManagerFor ?rp) ac"
  let ?K = "andThen (getClient env UserM) (\<lambda>userClient.
            andThen (handleCreate_database env ?rp uc ?c userClient) (\<lambda>_.
            andThen (end_client env ?c) (\<lambda>_.
            andThen (end_client env userClient) (\<lambda>_.
              ret \<lparr>r_PhysicalResourceId = join ''/'' [dbClusterHostname ?rp, databaseName ?rp, username uc]\<rparr>))))"
  let ?s1 = "(start ?rp w)\<lparr>userMgr := (userManagerFor ?rp)\<lparr>credentials := Some uc\<rparr>\<rparr>"
  let ?s2 = "?s1\<lparr>adminMgr := (adminManagerFor ?rp)\<lparr>credentials := Some ac\<rparr>\<rparr>"
  have g1: "getCredentials env UserM (start ?rp w) = (Inr uc, ?s1)"
    using u by (simp add: getCredentials_def start_def userManagerFor_def newManager_def)
  have g2: "getCredentials env AdminM ?s1 = (Inr ac, ?s2)"
    using a by (simp add: getCredentials_def start_def adminManagerFor_def newManager_def)
  have g3: "getClient env AdminM ?s2 =
      andThen (connect env ?c) (\<lambda>_. ret ?c) (create_ready ?rp uc ac w)"
    by (simp add: getClient_def create_ready_def start_def Let_def clientFor_def
        adminManagerFor_def newManager_def andThen_ret)
  have K: "grows ?K"
    by (intro grows_andThen grows_getClient grows_handleCreate_database grows_end_client grows_ret)
  have "handleCreate env event w =
      finish (andThen (connect env ?c) (\<lambda>_. andThen (handleCreate_user env ?rp uc ?c) (\<lambda>_. ?K))
        (create_ready ?rp uc ac w))"
    unfolding handleCreate_def handleCreate_run_def Let_def
    using ne
    by (simp add: andThen_Inr [of "getCredentials env UserM" "start ?rp w", OF g1]
        andThen_Inr [of "getCredentials env AdminM" ?s1, OF g2]
        andThen_at [of "getClient env AdminM" ?s2 "andThen (connect env ?c) (\<lambda>_. ret ?c)"
          "create_ready ?rp uc ac w", OF g3]
        andThen_assoc andThen_ret)
  with K show ?thesis by (rule that)
qed

text \<open>Two statements in a row on one client, then the rest of a run.\<close>

lemma two_queries_then:
  assumes K: "grows K"
    and run: "finish (andThen (andThen (query env c q1) (\<lambda>_. query env c q2)) (\<lambda>_. K) st) = (r, w')"
  shows "(\<exists>rest. trace w' = trace (world st) @ [Query c q1] @ rest)
       \<and> (\<forall>y d2. pg_query env c q1 (db (world st)) = (Some y, d2) \<longrightarrow>
            r = Inl (Raised y) \<and> w' = \<lparr>db = d2, trace = trace (world st) @ [Query c q1]\<rparr>)
       \<and> (\<forall>d2. pg_query env c q1 (db (world st)) = (None, d2) \<longrightarrow>
            (\<exists>rest. trace w' = trace (world st) @ [Query c q1, Query c q2] @ rest) \<and>
            (\<forall>y d3. pg_query env c q2 d2 = (Some y, d3) \<longrightarrow>
               r = Inl (Raised y) \<and>
               w' = \<lparr>db = d3, trace = trace (world st) @ [Query c q1, Query c q2]\<rparr>))"
proof -
  obtain o1 d2 where p1: "pg_query env c q1 (db (world st)) = (o1, d2)"
    by (cases "pg_query env c q1 (db (world st))")
  let ?s2 = "record_effect (Query c q1) d2 st"
  have q1: "query env c q1 st = (outcome o1, ?s2)"
    by (simp add: query_unfold p1)
  have w2: "world ?s2 = \<lparr>db = d2, trace = trace (world st) @ [Query c q1]\<rparr>"
    by (simp add: record_effect_def)
  show ?thesis
  proof (cases o1)
    case (Some y)
    with q1 run have "r = Inl (Raised y)" "w' = world ?s2"
      by (simp_all add: andThen_def finish_def outcome_def)
    with w2 p1 Some show ?thesis by simp
  next
    case None
    obtain o2 d3 where p2: "pg_query env c q2 d2 = (o2, d3)"
      by (cases "pg_query env c q2 d2")
    let ?s3 = "record_effect (Query c q2) d3 ?s2"
    have q2: "query env c q2 ?s2 = (outcome o2, ?s3)"
      by (simp add: query_unfold p2 w2)
    have w3: "world ?s3 = \<lparr>db = d3, trace = trace (world st) @ [Query c q1, Query c q2]\<rparr>"
      by (simp add: record_effect_def)
    show ?thesis
    proof (cases o2)
      case (Some y)
      with q1 q2 None run have "r = Inl (Raised y)" "w' = world ?s3"
        by (simp_all add: andThen_def finish_def outcome_def)
      with w3 p1 p2 None Some show ?thesis by simp
    next
      case n2: None
      with q1 q2 None run have "finish (K ?s3) = (r, w')"
        by (simp add: andThen_def outcome_def)
      then obtain st' where k: "K ?s3 = (r, st')" and "w' = world st'"
        by (blast dest: finish_eq)
      from growsD [OF K k] obtain rest where "trace (world st') = trace (world ?s3) @ rest" ..
      with \<open>w' = world st'\<close> w3 p1 p2 None n2 show ?thesis by simp
    qed
  qed
qed

text \<open>
  C4. A Create whose secrets resolve to different usernames connects the admin client and
  sends CREATE USER; say the server raises on it. On a duplicate user (a PostgreSQL error
  with code 42710), under Adopt the handler next sends the ALTER USER that sets the password
  and, once that is accepted, the ALTER USER that grants CREATEDB and LOGIN; under
  DeleteAndRecreate it next sends DROP USER and, once that is accepted, the same CREATE USER
  again. When one of these raises, the handler raises the same and has sent nothing after
  it. Under Fail, and for everything raised that is not a duplicate user, the handler raises
  what CREATE USER raised and has sent nothing after CREATE USER.
\<close>

theorem create_duplicate_user:
  assumes "getSecretValue env (userSecretArn (ResourceProperties event)) = Inr uc"
    and "getSecretValue env (dbSecretArn (ResourceProperties event)) = Inr ac"
    and "username uc \<noteq> username ac"
    and "c = clientFor (adminManagerFor (ResourceProperties event)) ac"
    and "createUser = ''CREATE USER '' @ username uc @ '' WITH PASSWORD '' @ [CHR 0x27] @ password uc @
           [CHR 0x27] @ '' CREATEDB LOGIN;''"
    and "alterPassword = ''ALTER USER '' @ username uc @ '' WITH PASSWORD '' @ [CHR 0x27] @ password uc @
           [CHR 0x27] @ '';''"
    and "alterPermissions = ''ALTER USER '' @ username uc @ '' WITH CREATEDB LOGIN;''"
    and "dropUser = ''DROP USER '' @ username uc @ '';''"
    and "pg_connect env c (db w) = (None, d0)"
    and "pg_query env c createUser d0 = (Some x, d1)"
    and "handleCreate env event w = (r, w')"
  shows "(isPostgresError (Raised x) \<and> code (Raised x) = JStr ''42710'' \<and>
          onCreateIfExists (ResourceProperties event) = Adopt \<longrightarrow>
            (\<exists>rest. trace w' = trace w @ [Connect c, Query c createUser, Query c alterPassword] @ rest) \<and>
            (\<forall>y d2. pg_query env c alterPassword d1 = (Some y, d2) \<longrightarrow>
               r = Inl (Raised y) \<and>
               w' = \<lparr>db = d2, trace = trace w @ [Connect c, Query c createUser, Query c alterPassword]\<rparr>) \<and>
            (\<forall>d2. pg_query env c alterPassword d1 = (None, d2) \<longrightarrow>
               (\<exists>rest. trace w' = trace w @ [Connect c, Query c createUser, Query c alterPassword,
                                               Query c alterPermissions] @ rest) \<and>
               (\<forall>y d3. pg_query env c alterPermissions d2 = (Some y, d3) \<longrightarrow>
                  r = Inl (Raised y) \<and>
                  w' = \<lparr>db = d3, trace = trace w @ [Connect c, Query c createUser, Query c alterPassword,
                                                    Query c alterPermissions]\<rparr>)))
       \<and> (isPostgresError (Raised x) \<and> code (Raised x) = JStr ''42710'' \<and>
          onCreateIfExists (ResourceProperties event) = DeleteAndRecreate \<longrightarrow>
            (\<exists>rest. trace w' = trace w @ [Connect c, Query c createUser, Query c dropUser] @ rest) \<and>
            (\<forall>y d2. pg_query env c dropUser d1 = (Some y, d2) \<longrightarrow>
               r = Inl (Raised y) \<and>
               w' = \<lparr>db = d2, trace = trace w @ [Connect c, Query c createUser, Query c dropUser]\<rparr>) \<and>
            (\<forall>d2. pg_query env c dropUser d1 = (None, d2) \<longrightarrow>
               (\<exists>rest. trace w' = trace w @ [Connect c, Query c createUser, Query c dropUser,
                                               Query c createUser] @ rest) \<and>
               (\<forall>y d3. pg_query env c createUser d2 = (Some y, d3) \<longrightarrow>
                  r = Inl (Raised y) \<and>
                  w' = \<lparr>db = d3, trace = trace w @ [Connect c, Query c createUser, Query c dropUser,
                                                    Query c createUser]\<rparr>)))
       \<and> (onCreateIfExists (ResourceProperties event) = Fail \<or>
          \<not> (isPostgresError (Raised x) \<and> code (Raised x) = JStr ''42710'') \<longrightarrow>
            r = Inl (Raised x) \<and> w' = \<lparr>db = d1, trace = trace w @ [Connect c, Query c createUser]\<rparr>)"
    (is "(?hA \<longrightarrow> ?cA) \<and> (?hD \<longrightarrow> ?cD) \<and> (?hF \<longrightarrow> ?cF)")
proof -
  let ?rp = "ResourceProperties event"
  note c = assms(4)
  have sqls: "createUser = sql_createUser uc" "alterPassword = sql_alterUserPassword uc"
    "alterPermissions = sql_alterUserPermissions uc" "dropUser = sql_dropUser uc"
    by (simp_all add: assms(5-8) sql_defs)
  from assms(1-3) obtain K where K: "grows (K :: ('a run, Response) prog)"
    and nf: "handleCreate env event w =
      finish (andThen (connect env c) (\<lambda>_. andThen (handleCreate_user env ?rp uc c) (\<lambda>_. K))
        (create_ready ?rp uc ac w))"
    unfolding c by (rule handleCreate_resolved)
  let ?s0 = "record_effect (Connect c) d0 (create_ready ?rp uc ac w)"
  let ?s1 = "record_effect (Query c createUser) d1 ?s0"
  have s0: "connect env c (create_ready ?rp uc ac w) = (Inr (), ?s0)"
    using assms(9) by (simp add: connect_unfold create_ready_def outcome_def)
  have w0: "db (world ?s0) = d0"
    by (simp add: record_effect_def)
  have s1: "query env c (sql_createUser uc) ?s0 = (Inl (Raised x), ?s1)"
    using assms(10) by (simp add: query_unfold w0 sqls outcome_def)
  have w1: "world ?s1 = \<lparr>db = d1, trace = trace w @ [Connect c, Query c createUser]\<rparr>"
    by (simp add: record_effect_def create_ready_def)
  note step = handleCreate_user_raised [OF s1, of ?rp]
  have whole: "finish (andThen (handleCreate_user env ?rp uc c) (\<lambda>_. K) ?s0) = (r, w')"
    using assms(11) unfolding nf by (simp add: andThen_Inr [of "connect env c" _ "()" ?s0, OF s0])
  have dup: "DUPLICATE_OBJECT = ''42710''" by (simp add: DUPLICATE_OBJECT_def)
  have adopt: ?cA if h: ?hA
  proof -
    from h step have "handleCreate_user env ?rp uc c ?s0 =
        andThen (query env c alterPassword) (\<lambda>_. query env c alterPermissions) ?s1"
      by (simp add: dup sqls del: isPostgresError.simps code.simps)
    with whole have "finish (andThen (andThen (query env c alterPassword) (\<lambda>_. query env c alterPermissions))
        (\<lambda>_. K) ?s1) = (r, w')"
      by (simp add: andThen_def)
    from two_queries_then [OF K this] show ?thesis
      by (simp add: w1)
  qed
  have dar: ?cD if h: ?hD
  proof -
    from h step have "handleCreate_user env ?rp uc c ?s0 =
        andThen (query env c dropUser) (\<lambda>_. query env c createUser) ?s1"
      by (simp add: dup sqls del: isPostgresError.simps code.simps)
    with whole have "finish (andThen (andThen (query env c dropUser) (\<lambda>_. query env c createUser))
        (\<lambda>_. K) ?s1) = (r, w')"
      by (simp add: andThen_def)
    from two_queries_then [OF K this] show ?thesis
      by (simp add: w1)
  qed
  have other: ?cF if h: ?hF
  proof -
    from h step have "handleCreate_user env ?rp uc c ?s0 = (Inl (Raised x), ?s1)"
      by (auto simp: dup simp del: isPostgresError.simps code.simps)
    with whole have "r = Inl (Raised x)" "w' = world ?s1"
      by (simp_all add: andThen_def finish_def)
    with w1 show ?thesis by simp
  qed
  show ?thesis
  proof (rule conjI [OF _ conjI])
    show "?hA \<longrightarrow> ?cA" by (rule impI) (erule adopt)
    show "?hD \<longrightarrow> ?cD" by (rule impI) (erule dar)
    show "?hF \<longrightarrow> ?cF" by (rule impI) (erule other)
  qed
qed

theorem create_duplicate_user_witness:
  "pg_query (failing_on (''CREATE USER svc WITH PASSWORD '' @ [CHR 0x27] @ ''svcpw'' @ [CHR 0x27] @ '' CREATEDB LOGIN;'')
              (pg_error ''42710'') secrets_demo)
     admin_demo (''CREATE USER svc WITH PASSWORD '' @ [CHR 0x27] @ ''svcpw'' @ [CHR 0x27] @ '' CREATEDB LOGIN;'') ()
     = (Some (pg_error ''42710''), ())
   \<and> isPostgresError (Raised (pg_error ''42710''))
   \<and> code (Raised (pg_error ''42710'')) = JStr ''42710''
   \<and> handleCreate (failing_on (''CREATE USER svc WITH PASSWORD '' @ [CHR 0x27] @ ''svcpw'' @ [CHR 0x27] @ '' CREATEDB LOGIN;'')
                     (pg_error ''42710'') secrets_demo)
        \<lparr>ResourceProperties = props_demo\<lparr>onCreateIfExists := Adopt\<rparr>\<rparr> w0
      = (Inr \<lparr>r_PhysicalResourceId = ''db.local/app/svc''\<rparr>,
         \<lparr>db = (),
          trace = [Connect admin_demo,
                   Query admin_demo (''CREATE USER svc WITH PASSWORD '' @ [CHR 0x27] @ ''svcpw'' @ [CHR 0x27] @ '' CREATEDB LOGIN;''),
                   Query admin_demo (''ALTER USER svc WITH PASSWORD '' @ [CHR 0x27] @ ''svcpw'' @ [CHR 0x27] @ '';''),
                   Query admin_demo ''ALTER USER svc WITH CREATEDB LOGIN;'',
                   Connect user_demo,
                   Query user_demo ''CREATE DATABASE app;'',
                   End admin_demo, End user_demo]\<rparr>)
   \<and> handleCreate (failing_on (''CREATE USER svc WITH PASSWORD '' @ [CHR 0x27] @ ''svcpw'' @ [CHR 0x27] @ '' CREATEDB LOGIN;'')
                     (pg_error ''42710'') secrets_demo)
        \<lparr>ResourceProperties = props_demo\<lparr>onCreateIfExists := DeleteAndRecreate\<rparr>\<rparr> w0
      = (Inl (Raised (pg_error ''42710'')),
         \<lparr>db = (),
          trace = [Connect admin_demo,
                   Query admin_demo (''CREATE USER svc WITH PASSWORD '' @ [CHR 0x27] @ ''svcpw'' @ [CHR 0x27] @ '' CREATEDB LOGIN;''),
                   Query admin_demo ''DROP USER svc;'',
                   Query admin_demo (''CREATE USER svc WITH PASSWORD '' @ [CHR 0x27] @ ''svcpw'' @ [CHR 0x27] @ '' CREATEDB LOGIN;'')]\<rparr>)"
proof -
  let ?q = "''CREATE USER svc WITH PASSWORD '' @ [CHR 0x27] @ ''svcpw'' @ [CHR 0x27] @ '' CREATEDB LOGIN;''"
  let ?env = "failing_on ?q (pg_error ''42710'') secrets_demo"
  let ?uc = "\<lparr>username = ''svc'', password = ''svcpw''\<rparr>"
  let ?ac = "\<lparr>username = ''root'', password = ''rootpw''\<rparr>"
  let ?a = "\<lparr>ResourceProperties = props_demo\<lparr>onCreateIfExists := Adopt\<rparr>\<rparr>"
  let ?d = "\<lparr>ResourceProperties = props_demo\<lparr>onCreateIfExists := DeleteAndRecreate\<rparr>\<rparr>"
  have ev: "handleCreate ?env ?a w0
      = (Inr \<lparr>r_PhysicalResourceId = ''db.local/app/svc''\<rparr>,
         \<lparr>db = (),
          trace = [Connect admin_demo, Query admin_demo ?q,
                   Query admin_demo (''ALTER USER svc WITH PASSWORD '' @ [CHR 0x27] @ ''svcpw'' @ [CHR 0x27] @ '';''),
                   Query admin_demo ''ALTER USER svc WITH CREATEDB LOGIN;'',
                   Connect user_demo, Query user_demo ''CREATE DATABASE app;'',
                   End admin_demo, End user_demo]\<rparr>)"
    by (simp add: handleCreate_def handleCreate_run_def handleCreate_user_def handleCreate_database_def
        prog_defs mgr_defs sql_defs demo_defs collisionError_def pg_error_def DUPLICATE_OBJECT_def
        DUPLICATE_DATABASE_def)
  have ed: "handleCreate ?env ?d w0
      = (Inl (Raised (pg_error ''42710'')),
         \<lparr>db = (),
          trace = [Connect admin_demo, Query admin_demo ?q, Query admin_demo ''DROP USER svc;'',
                   Query admin_demo ?q]\<rparr>)"
    by (simp add: handleCreate_def handleCreate_run_def handleCreate_user_def handleCreate_database_def
        prog_defs mgr_defs sql_defs demo_defs collisionError_def pg_error_def DUPLICATE_OBJECT_def
        DUPLICATE_DATABASE_def)
  have u: "getSecretValue ?env (userSecretArn (ResourceProperties ?a)) = Inr ?uc"
    "getSecretValue ?env (userSecretArn (ResourceProperties ?d)) = Inr ?uc"
    by (simp_all add: demo_defs)
  have a: "getSecretValue ?env (dbSecretArn (ResourceProperties ?a)) = Inr ?ac"
    "getSecretValue ?env (dbSecretArn (ResourceProperties ?d)) = Inr ?ac"
    by (simp_all add: demo_defs)
  have ne: "username ?uc \<noteq> username ?ac" by simp
  have c: "admin_demo = clientFor (adminManagerFor (ResourceProperties ?a)) ?ac"
    "admin_demo = clientFor (adminManagerFor (ResourceProperties ?d)) ?ac"
    by (simp_all add: demo_defs clientFor_def adminManagerFor_def newManager_def)
  have q: "?q = ''CREATE USER '' @ username ?uc @ '' WITH PASSWORD '' @ [CHR 0x27] @ password ?uc @
           [CHR 0x27] @ '' CREATEDB LOGIN;''" by simp
  have con: "pg_connect ?env admin_demo (db w0) = (None, ())"
    by (simp add: demo_defs)
  have dup: "pg_query ?env admin_demo ?q () = (Some (pg_error ''42710''), ())"
    by (simp add: demo_defs)
  from create_duplicate_user [OF u(1) a(1) ne c(1) q refl refl refl con dup ev]
       create_duplicate_user [OF u(2) a(2) ne c(2) q refl refl refl con dup ed]
       ev ed dup
  show ?thesis by (simp add: pg_error_def)
qed

text \<open>
  The database-creation step. What CREATE DATABASE raises is raised again under Fail and
  Adopt unless it is the duplicate database Adopt takes over; under DeleteAndRecreate a
  PostgreSQL error with any other code is dropped and the step ends normally.
\<close>

lemma create_database_reraised:
  assumes "query env userClient (sql_createDatabase (databaseName rp)) st = (Inl e, st')"
    and "onCreateIfExists rp \<noteq> DeleteAndRecreate"
    and "\<not> (isPostgresError e \<and> code e = JStr DUPLICATE_DATABASE)"
  shows "handleCreate_database env rp uc adminClient userClient st = (Inl e, st')"
  using assms by (auto simp: handleCreate_database_def prog_defs)

lemma create_database_swallowed:
  assumes "query env userClient (sql_createDatabase (databaseName rp)) st = (Inl e, st')"
    and "onCreateIfExists rp = DeleteAndRecreate"
    and "isPostgresError e" and "code e \<noteq> JStr DUPLICATE_DATABASE"
  shows "handleCreate_database env rp uc adminClient userClient st = (Inr (), st')"
  using assms by (auto simp: handleCreate_database_def prog_defs)

text \<open>
  C2 at a concrete run: the policy is DeleteAndRecreate and the server refuses
  CREATE DATABASE with insufficient privilege (42501). The Create returns its token as if
  the database had been created; the error is not raised again.
\<close>

theorem create_database_error_swallowed:
  "handleCreate (failing_on ''CREATE DATABASE app;'' (pg_error INSUFFICIENT_PRIVILEGE) secrets_demo)
     \<lparr>ResourceProperties = props_demo\<lparr>onCreateIfExists := DeleteAndRecreate\<rparr>\<rparr> w0
   = (Inr \<lparr>r_PhysicalResourceId = ''db.local/app/svc''\<rparr>,
      \<lparr>db = (),
       trace = [Connect admin_demo,
                Query admin_demo (''CREATE USER svc WITH PASSWORD '' @ sq @ ''svcpw'' @ sq @ '' CREATEDB LOGIN;''),
                Connect user_demo,
                Query user_demo ''CREATE DATABASE app;'',
                End admin_demo, End user_demo]\<rparr>)"
  by (simp add: handleCreate_def handleCreate_run_def handleCreate_user_def handleCreate_database_def
      prog_defs mgr_defs sql_defs demo_defs collisionError_def pg_error_def INSUFFICIENT_PRIVILEGE_def
      DUPLICATE_DATABASE_def)

section \<open>Delete\<close>

text \<open>
  C6. A Delete under Retain returns the token it was given and leaves the world untouched:
  no secret is resolved, no connection opened, no statement sent.
\<close>

theorem delete_retain_noop:
  "onDelete (ResourceProperties event) = Retain \<Longrightarrow>
   handleDelete env event w = (Inr \<lparr>r_PhysicalResourceId = PhysicalResourceId event\<rparr>, w)"
  by (simp add: handleDelete_def handleDelete_run_def prog_defs mgr_defs)

theorem delete_retain_noop_witness:
  "onDelete (props_demo\<lparr>onDelete := Retain\<rparr>) = Retain
   \<and> handleDelete (accepting secrets_demo)
       \<lparr>ResourceProperties = props_demo\<lparr>onDelete := Retain\<rparr>, PhysicalResourceId = ''db.local/app/svc''\<rparr> w0
     = (Inr \<lparr>r_PhysicalResourceId = ''db.local/app/svc''\<rparr>, w0)"
  using delete_retain_noop [of "\<lparr>ResourceProperties = props_demo\<lparr>onDelete := Retain\<rparr>,
      PhysicalResourceId = ''db.local/app/svc''\<rparr>" "accepting secrets_demo" w0]
  by (simp add: props_demo_def)











text \<open>Delete does check for the collision, before it connects.\<close>

lemma delete_collision:
  assumes "onDelete (ResourceProperties event) = Delete"
    and "getSecretValue env (userSecretArn (ResourceProperties event)) = Inr uc"
    and "getSecretValue env (dbSecretArn (ResourceProperties event)) = Inr ac"
    and "username uc = username ac"
  shows "handleDelete env event w = (Inl collisionError, w)"
  using assms by (simp add: handleDelete_def handleDelete_run_def prog_defs mgr_defs)

section \<open>Update\<close>

lemma client_query_any:
  assumes "andThen (getClient env k) (\<lambda>c. query env c q) st = (r, st')"
  shows "(sql_of (trace (world st')) = sql_of (trace (world st)) \<and> r \<noteq> Inr ()) \<or>
         sql_of (trace (world st')) = sql_of (trace (world st)) @ [q]"
  using assms
  by (cases k)
     (auto simp: prog_defs getClient_def getCredentials_def connect_def query_def record_effect_def
        outcome_def Let_def sql_of_append split: option.splits sum.splits prod.splits)

lemma end_mgr_any:
  "end_mgr env k st = (r, st') \<Longrightarrow> sql_of (trace (world st')) = sql_of (trace (world st))"
  by (auto simp: end_mgr_def end_client_def record_effect_def sql_of_append
      split: option.splits prod.splits)

text \<open>With only the password policy on, an Update is the password step and the two closes.\<close>

lemma handleUpdate_password_only:
  assumes u: "getSecretValue env (userSecretArn (ResourceProperties event)) = Inr uc"
    and tok: "PhysicalResourceId event =
           join ''/'' [dbClusterHostname (ResourceProperties event),
                       databaseName (ResourceProperties event), username uc]"
    and p: "onUpdateSetUserPassword (ResourceProperties event) = Always"
      "onUpdateIfUserDoesNotExist (ResourceProperties event) = Ignore"
      "onUpdateIfDatabaseDoesNotExist (ResourceProperties event) = Ignore"
      "onUpdateSetUserPermissions (ResourceProperties event) = Never"
      "onUpdateSetDatabaseOwnership (ResourceProperties event) = Never"
  shows "handleUpdate env event w =
     finish (andThen
        (andThen (getClient env AdminM) (\<lambda>client. query env client (sql_alterUserPassword uc)))
        (\<lambda>_. andThen (end_mgr env AdminM) (\<lambda>_. andThen (end_mgr env UserM)
           (\<lambda>_. ret \<lparr>r_PhysicalResourceId = PhysicalResourceId event\<rparr>)))
        ((start (ResourceProperties event) w)
           \<lparr>userMgr := (userManagerFor (ResourceProperties event))\<lparr>credentials := Some uc\<rparr>\<rparr>))"
proof -
  let ?rp = "ResourceProperties event"
  let ?s1 = "(start ?rp w)\<lparr>userMgr := (userManagerFor ?rp)\<lparr>credentials := Some uc\<rparr>\<rparr>"
  have g1: "getCredentials env UserM (start ?rp w) = (Inr uc, ?s1)"
    using u by (simp add: getCredentials_def start_def userManagerFor_def newManager_def)
  show ?thesis
    unfolding handleUpdate_def handleUpdate_run_def Let_def
    using tok p
    by (simp add: andThen_Inr [of "getCredentials env UserM" "start ?rp w", OF g1]
        update_userExistence_def update_userPassword_def update_userPermissions_def
        update_databaseExistence_def update_databaseOwnership_def andThen_ret)
qed

text \<open>
  C7. An Update whose token is the one recomputed from its properties and the user secret,
  with onUpdateSetUserPassword = Always and the four other policies off: the run sends at
  most one statement, the ALTER USER that sets the password; when it returns, it has sent
  exactly that one and returns the token it was given; and it does return when the admin
  secret resolves and the server accepts the connection, the statement and the close.
\<close>

theorem update_password_only:
  assumes "getSecretValue env (userSecretArn (ResourceProperties event)) = Inr uc"
    and "PhysicalResourceId event =
           join ''/'' [dbClusterHostname (ResourceProperties event),
                       databaseName (ResourceProperties event), username uc]"
    and "onUpdateSetUserPassword (ResourceProperties event) = Always"
    and "onUpdateIfUserDoesNotExist (ResourceProperties event) = Ignore"
    and "onUpdateIfDatabaseDoesNotExist (ResourceProperties event) = Ignore"
    and "onUpdateSetUserPermissions (ResourceProperties event) = Never"
    and "onUpdateSetDatabaseOwnership (ResourceProperties event) = Never"
    and "handleUpdate env event w = (r, w')"
  shows "(sql_of (trace w') = sql_of (trace w) \<or>
          sql_of (trace w') = sql_of (trace w) @ [sql_alterUserPassword uc])
       \<and> (\<forall>resp. r = Inr resp \<longrightarrow>
             resp = \<lparr>r_PhysicalResourceId = PhysicalResourceId event\<rparr> \<and>
             sql_of (trace w') = sql_of (trace w) @ [sql_alterUserPassword uc])
       \<and> (\<forall>ac d1 d2 d3.
             getSecretValue env (dbSecretArn (ResourceProperties event)) = Inr ac \<and>
             pg_connect env (clientFor (adminManagerFor (ResourceProperties event)) ac) (db w) = (None, d1) \<and>
             pg_query env (clientFor (adminManagerFor (ResourceProperties event)) ac)
               (sql_alterUserPassword uc) d1 = (None, d2) \<and>
             pg_end env (clientFor (adminManagerFor (ResourceProperties event)) ac) d2 = (None, d3)
             \<longrightarrow> r = Inr \<lparr>r_PhysicalResourceId = PhysicalResourceId event\<rparr>)"
proof -
  let ?rp = "ResourceProperties event"
  let ?q = "sql_alterUserPassword uc"
  let ?tok = "\<lparr>r_PhysicalResourceId = PhysicalResourceId event\<rparr>"
  let ?s1 = "(start ?rp w)\<lparr>userMgr := (userManagerFor ?rp)\<lparr>credentials := Some uc\<rparr>\<rparr>"
  note nf = handleUpdate_password_only [OF assms(1-7)]
  have t1: "sql_of (trace (world ?s1)) = sql_of (trace w)" by (simp add: start_def)
  from assms(8) obtain st' where run: "andThen
        (andThen (getClient env AdminM) (\<lambda>client. query env client ?q))
        (\<lambda>_. andThen (end_mgr env AdminM) (\<lambda>_. andThen (end_mgr env UserM) (\<lambda>_. ret ?tok))) ?s1 = (r, st')"
    and w': "w' = world st'"
    unfolding nf by (blast dest: finish_eq)
  have sent: "(sql_of (trace w') = sql_of (trace w) \<and> (\<forall>resp. r \<noteq> Inr resp)) \<or>
              (sql_of (trace w') = sql_of (trace w) @ [?q] \<and> (\<forall>resp. r = Inr resp \<longrightarrow> resp = ?tok))"
    using run
  proof (cases rule: andThen_cases)
    case (1 e)
    from client_query_any [OF 1(1)] 1(2) t1 w' show ?thesis by auto
  next
    case (2 x s2)
    from client_query_any [OF 2(1)] t1
    have q: "sql_of (trace (world s2)) = sql_of (trace w) @ [?q]" by auto
    from 2(2) show ?thesis
    proof (cases rule: andThen_cases)
      case (1 e)
      from end_mgr_any [OF 1(1)] 1(2) q w' show ?thesis by auto
    next
      case (2 y s3)
      note a = end_mgr_any [OF 2(1)]
      from 2(2) show ?thesis
      proof (cases rule: andThen_cases)
        case (1 e)
        from end_mgr_any [OF 1(1)] 1(2) a q w' show ?thesis by auto
      next
        case (2 z s4)
        from end_mgr_any [OF 2(1)] 2(2) a q w' show ?thesis by (auto simp: ret_def)
      qed
    qed
  qed
  have live: "r = Inr ?tok"
    if "getSecretValue env (dbSecretArn ?rp) = Inr ac"
      and "pg_connect env (clientFor (adminManagerFor ?rp) ac) (db w) = (None, d1)"
      and "pg_query env (clientFor (adminManagerFor ?rp) ac) ?q d1 = (None, d2)"
      and "pg_end env (clientFor (adminManagerFor ?rp) ac) d2 = (None, d3)"
    for ac d1 d2 d3
    using assms(8) that unfolding nf
    by (simp add: prog_defs mgr_defs)
  from sent live show ?thesis by blast
qed

theorem update_password_only_witness:
  "handleUpdate (accepting secrets_demo)
     \<lparr>ResourceProperties = props_demo\<lparr>onUpdateSetUserPassword := Always\<rparr>,
      PhysicalResourceId = ''db.local/app/svc''\<rparr> w0
   = (Inr \<lparr>r_PhysicalResourceId = ''db.local/app/svc''\<rparr>,
      \<lparr>db = (), trace = [Connect admin_demo,
                          Query admin_demo (''ALTER USER svc WITH PASSWORD '' @ sq @ ''svcpw'' @ sq @ '';''),
                          End admin_demo]\<rparr>)
   \<and> sql_of [Connect admin_demo,
             Query admin_demo (''ALTER USER svc WITH PASSWORD '' @ sq @ ''svcpw'' @ sq @ '';''),
             End admin_demo]
     = sql_of (trace w0) @ [sql_alterUserPassword \<lparr>username = ''svc'', password = ''svcpw''\<rparr>]"
proof -
  let ?ev = "\<lparr>ResourceProperties = props_demo\<lparr>onUpdateSetUserPassword := Always\<rparr>,
              PhysicalResourceId = ''db.local/app/svc''\<rparr>"
  let ?uc = "\<lparr>username = ''svc'', password = ''svcpw''\<rparr>"
  have h: "handleUpdate (accepting secrets_demo) ?ev w0
     = (Inr \<lparr>r_PhysicalResourceId = ''db.local/app/svc''\<rparr>,
        \<lparr>db = (), trace = [Connect admin_demo,
                          Query admin_demo (''ALTER USER svc WITH PASSWORD '' @ sq @ ''svcpw'' @ sq @ '';''),
                          End admin_demo]\<rparr>)"
    by (simp add: handleUpdate_def handleUpdate_run_def update_userExistence_def
        update_userPassword_def update_userPermissions_def update_databaseExistence_def
        update_databaseOwnership_def prog_defs mgr_defs sql_defs demo_defs identityError_def)
  have u: "getSecretValue (accepting secrets_demo) (userSecretArn (ResourceProperties ?ev)) = Inr ?uc"
    by (simp add: demo_defs)
  have t: "PhysicalResourceId ?ev =
      join ''/'' [dbClusterHostname (ResourceProperties ?ev), databaseName (ResourceProperties ?ev),
                  username ?uc]"
    by (simp add: demo_defs)
  have p: "onUpdateSetUserPassword (ResourceProperties ?ev) = Always"
      "onUpdateIfUserDoesNotExist (ResourceProperties ?ev) = Ignore"
      "onUpdateIfDatabaseDoesNotExist (ResourceProperties ?ev) = Ignore"
      "onUpdateSetUserPermissions (ResourceProperties ?ev) = Never"
      "onUpdateSetDatabaseOwnership (ResourceProperties ?ev) = Never"
    by (simp_all add: demo_defs)
  from update_password_only [OF u t p h] h show ?thesis by simp
qed

text \<open>What a library call raises is a value of the library.\<close>

lemma query_raises: "query env c q st = (Inl e, st') \<Longrightarrow> from_library e"
  by (auto simp: query_def outcome_def split: prod.splits option.splits)

lemma end_client_raises: "end_client env c st = (Inl e, st') \<Longrightarrow> from_library e"
  by (auto simp: end_client_def outcome_def split: prod.splits option.splits)

lemma end_mgr_raises: "end_mgr env k st = (Inl e, st') \<Longrightarrow> from_library e"
  by (auto simp: end_mgr_def dest: end_client_raises split: option.splits)

lemma getCredentials_raises: "getCredentials env k st = (Inl e, st') \<Longrightarrow> from_library e"
  by (auto simp: getCredentials_def split: option.splits sum.splits)

lemma connect_raises: "connect env c st = (Inl e, st') \<Longrightarrow> from_library e"
  by (auto simp: connect_def outcome_def split: prod.splits option.splits)

lemma getClient_raises: "getClient env k st = (Inl e, st') \<Longrightarrow> from_library e"
  by (auto simp: getClient_def prog_defs Let_def
      dest!: getCredentials_raises connect_raises split: option.splits sum.splits prod.splits)

lemma andThen_raises:
  "andThen m f s = (Inl e, s') \<Longrightarrow>
   m s = (Inl e, s') \<or> (\<exists>x s1. m s = (Inr x, s1) \<and> f x s1 = (Inl e, s'))"
  by (auto simp: andThen_def split: sum.splits prod.splits)

lemma tryCatch_Inl:
  "tryCatch m h s = (Inl e, s') \<Longrightarrow> \<exists>e1 s1. m s = (Inl e1, s1) \<and> h e1 s1 = (Inl e, s')"
  by (auto simp: tryCatch_def split: sum.splits prod.splits)

lemma client_query_raises:
  "andThen (getClient env k) (\<lambda>client. query env client q) st = (Inl e, st') \<Longrightarrow> from_library e"
  by (auto dest!: andThen_raises dest: getClient_raises query_raises)

lemma update_userExistence_raises:
  "update_userExistence env rp uc st = (Inl e, st') \<Longrightarrow> from_library e"
  by (auto simp: update_userExistence_def ret_def throw_def
      dest!: tryCatch_Inl dest: client_query_raises split: if_splits)

lemma update_userPassword_raises:
  "update_userPassword env rp uc st = (Inl e, st') \<Longrightarrow> from_library e"
  by (auto simp: update_userPassword_def ret_def dest: client_query_raises split: if_splits)

lemma update_userPermissions_raises:
  "update_userPermissions env rp uc st = (Inl e, st') \<Longrightarrow> from_library e"
  by (auto simp: update_userPermissions_def ret_def dest: client_query_raises split: if_splits)

lemma update_databaseExistence_raises:
  "update_databaseExistence env rp st = (Inl e, st') \<Longrightarrow> from_library e"
  by (auto simp: update_databaseExistence_def ret_def throw_def
      dest!: tryCatch_Inl dest: client_query_raises split: if_splits)

lemma update_databaseOwnership_raises:
  "update_databaseOwnership env rp uc st = (Inl e, st') \<Longrightarrow> from_library e"
  by (auto simp: update_databaseOwnership_def ret_def dest: client_query_raises split: if_splits)

lemma handleUpdate_run_raises:
  assumes "handleUpdate_run env event st = (Inl e, st')"
  shows "e = identityError \<or> from_library e"
  using assms unfolding handleUpdate_run_def Let_def
  by (auto simp: ret_def throw_def
      dest!: andThen_raises
      dest: getCredentials_raises update_userExistence_raises update_userPassword_raises
        update_userPermissions_raises update_databaseExistence_raises update_databaseOwnership_raises
        end_mgr_raises
      split: if_splits)

lemma handleUpdate_never_collision: "fst (handleUpdate env event w) \<noteq> Inl collisionError"
proof
  assume a: "fst (handleUpdate env event w) = Inl collisionError"
  then obtain st' where "handleUpdate_run env event (start (ResourceProperties event) w) = (Inl collisionError, st')"
    by (cases "handleUpdate_run env event (start (ResourceProperties event) w)")
       (simp add: handleUpdate_def finish_def)
  from handleUpdate_run_raises [OF this] show False
    by (simp add: collisionError_def identityError_def)
qed

text \<open>The steps of an Update against a server that accepts every call.\<close>

lemma kept_trans: "kept a b xs \<Longrightarrow> kept b c ys \<Longrightarrow> kept a c (xs @ ys)"
  by (simp add: kept_def)

lemma client_query_accepted:
  assumes "\<And>c d. fst (pg_connect env c d) = None"
    and "\<And>c q d. fst (pg_query env c q d) = None"
    and "getSecretValue env (m_dbSecretArn (props (mgr k st))) = Inr cr"
  shows "\<exists>st'. andThen (getClient env k) (\<lambda>c. query env c q) st = (Inr (), st') \<and> kept st st' [q]"
  using assms
  by (cases k)
     (auto simp: prog_defs getClient_def getCredentials_def clientFor_def connect_def query_def
        record_effect_def outcome_def Let_def case_prod_beta sql_of_append kept_def
        split: option.splits)

lemma end_mgr_accepted:
  assumes "\<And>c d. fst (pg_end env c d) = None"
  shows "\<exists>st'. end_mgr env k st = (Inr (), st') \<and> kept st st' []"
  using assms
  by (auto simp: end_mgr_def end_client_def record_effect_def outcome_def case_prod_beta sql_of_append
      kept_def split: option.splits)

lemma update_userExistence_accepted:
  assumes "\<And>c d. fst (pg_connect env c d) = None"
    and "\<And>c q d. fst (pg_query env c q d) = None"
    and "getSecretValue env (m_dbSecretArn (props (mgr AdminM st))) = Inr cr"
  shows "\<exists>st'. update_userExistence env rp uc st = (Inr (), st') \<and>
           kept st st' (if onUpdateIfUserDoesNotExist rp = Create then [sql_createUser uc] else [])"
  using client_query_accepted [OF assms, of "sql_createUser uc"]
  by (auto simp: update_userExistence_def ret_def tryCatch_def kept_def)

lemma update_userPassword_accepted:
  assumes "\<And>c d. fst (pg_connect env c d) = None"
    and "\<And>c q d. fst (pg_query env c q d) = None"
    and "getSecretValue env (m_dbSecretArn (props (mgr AdminM st))) = Inr cr"
  shows "\<exists>st'. update_userPassword env rp uc st = (Inr (), st') \<and>
           kept st st' (if onUpdateSetUserPassword rp = Always then [sql_alterUserPassword uc] else [])"
  using client_query_accepted [OF assms, of "sql_alterUserPassword uc"]
  by (auto simp: update_userPassword_def ret_def kept_def)

lemma update_userPermissions_accepted:
  assumes "\<And>c d. fst (pg_connect env c d) = None"
    and "\<And>c q d. fst (pg_query env c q d) = None"
    and "getSecretValue env (m_dbSecretArn (props (mgr AdminM st))) = Inr cr"
  shows "\<exists>st'. update_userPermissions env rp uc st = (Inr (), st') \<and>
           kept st st' (if onUpdateSetUserPermissions rp = Always then [sql_alterUserPermissions uc] else [])"
  using client_query_accepted [OF assms, of "sql_alterUserPermissions uc"]
  by (auto simp: update_userPermissions_def ret_def kept_def)

lemma update_databaseExistence_accepted:
  assumes "\<And>c d. fst (pg_connect env c d) = None"
    and "\<And>c q d. fst (pg_query env c q d) = None"
    and "getSecretValue env (m_dbSecretArn (props (mgr UserM st))) = Inr cr"
  shows "\<exists>st'. update_databaseExistence env rp st = (Inr (), st') \<and>
           kept st st' (if onUpdateIfDatabaseDoesNotExist rp = Create
                        then [sql_createDatabase (databaseName rp)] else [])"
  using client_query_accepted [OF assms, of "sql_createDatabase (databaseName rp)"]
  by (auto simp: update_databaseExistence_def ret_def tryCatch_def kept_def)

lemma update_databaseOwnership_accepted:
  assumes "\<And>c d. fst (pg_connect env c d) = None"
    and "\<And>c q d. fst (pg_query env c q d) = None"
    and "getSecretValue env (m_dbSecretArn (props (mgr AdminM st))) = Inr cr"
  shows "\<exists>st'. update_databaseOwnership env rp uc st = (Inr (), st') \<and>
           kept st st' (if onUpdateSetDatabaseOwnership rp = Always
                        then [sql_alterDatabaseOwner (databaseName rp) uc] else [])"
  using client_query_accepted [OF assms, of "sql_alterDatabaseOwner (databaseName rp) uc"]
  by (auto simp: update_databaseOwnership_def ret_def kept_def)

lemma handleUpdate_run_accepted:
  assumes c: "\<And>c d. fst (pg_connect env c d) = None"
    and q: "\<And>c q d. fst (pg_query env c q d) = None"
    and e: "\<And>c d. fst (pg_end env c d) = None"
    and uc: "getSecretValue env (userSecretArn (ResourceProperties event)) = Inr uc"
    and ac: "getSecretValue env (dbSecretArn (ResourceProperties event)) = Inr ac"
    and tok: "PhysicalResourceId event =
           join ''/'' [dbClusterHostname (ResourceProperties event),
                       databaseName (ResourceProperties event), username uc]"
  shows "\<exists>st'. handleUpdate_run env event (start (ResourceProperties event) w)
            = (Inr \<lparr>r_PhysicalResourceId = PhysicalResourceId event\<rparr>, st') \<and>
           sql_of (trace (world st')) =
             sql_of (trace w) @ update_statements (ResourceProperties event) uc"
proof -
  let ?rp = "ResourceProperties event"
  define s0 :: "'a run" where
    "s0 = (start ?rp w)\<lparr>userMgr := (userManagerFor ?rp)\<lparr>credentials := Some uc\<rparr>\<rparr>"
  have g0: "getCredentials env UserM (start ?rp w) = (Inr uc, s0)"
    using uc by (simp add: getCredentials_def start_def s0_def userManagerFor_def newManager_def)
  have k0: "kept (start ?rp w) s0 []"
    by (simp add: kept_def s0_def start_def)
  have sa: "getSecretValue env (m_dbSecretArn (props (mgr AdminM st))) = Inr ac"
    if "kept (start ?rp w) st qs" for st :: "'a run" and qs
    using ac that by (simp add: kept_def start_def adminManagerFor_def newManager_def)
  have su: "getSecretValue env (m_dbSecretArn (props (mgr UserM st))) = Inr uc"
    if "kept (start ?rp w) st qs" for st :: "'a run" and qs
    using uc that by (simp add: kept_def start_def userManagerFor_def newManager_def)
  from update_userExistence_accepted [OF c q sa [OF k0], of ?rp uc]
  obtain s1 where s1: "update_userExistence env ?rp uc s0 = (Inr (), s1)"
    and "kept s0 s1 (if onUpdateIfUserDoesNotExist ?rp = Create then [sql_createUser uc] else [])"
    by blast
  from kept_trans [OF k0 this(2)] have k1: "kept (start ?rp w) s1
      ([] @ (if onUpdateIfUserDoesNotExist ?rp = Create then [sql_createUser uc] else []))" .
  from update_userPassword_accepted [OF c q sa [OF k1], of ?rp uc]
  obtain s2 where s2: "update_userPassword env ?rp uc s1 = (Inr (), s2)"
    and "kept s1 s2 (if onUpdateSetUserPassword ?rp = Always then [sql_alterUserPassword uc] else [])"
    by blast
  note k2 = kept_trans [OF k1 this(2)]
  from update_userPermissions_accepted [OF c q sa [OF k2], of ?rp uc]
  obtain s3 where s3: "update_userPermissions env ?rp uc s2 = (Inr (), s3)"
    and "kept s2 s3 (if onUpdateSetUserPermissions ?rp = Always then [sql_alterUserPermissions uc] else [])"
    by blast
  note k3 = kept_trans [OF k2 this(2)]
  from update_databaseExistence_accepted [OF c q su [OF k3], of ?rp]
  obtain s4 where s4: "update_databaseExistence env ?rp s3 = (Inr (), s4)"
    and "kept s3 s4 (if onUpdateIfDatabaseDoesNotExist ?rp = Create
                     then [sql_createDatabase (databaseName ?rp)] else [])"
    by blast
  note k4 = kept_trans [OF k3 this(2)]
  from update_databaseOwnership_accepted [OF c q sa [OF k4], of ?rp uc]
  obtain s5 where s5: "update_databaseOwnership env ?rp uc s4 = (Inr (), s5)"
    and "kept s4 s5 (if onUpdateSetDatabaseOwnership ?rp = Always
                     then [sql_alterDatabaseOwner (databaseName ?rp) uc] else [])"
    by blast
  note k5 = kept_trans [OF k4 this(2)]
  from end_mgr_accepted [OF e, of AdminM s5]
  obtain s6 where s6: "end_mgr env AdminM s5 = (Inr (), s6)" and "kept s5 s6 []" by blast
  note k6 = kept_trans [OF k5 this(2)]
  from end_mgr_accepted [OF e, of UserM s6]
  obtain s7 where s7: "end_mgr env UserM s6 = (Inr (), s7)" and "kept s6 s7 []" by blast
  note k7 = kept_trans [OF k6 this(2)]
  have "handleUpdate_run env event (start ?rp w) = (Inr \<lparr>r_PhysicalResourceId = PhysicalResourceId event\<rparr>, s7)"
    unfolding handleUpdate_run_def Let_def
    using tok
    by (simp add: andThen_def g0 s1 s2 s3 s4 s5 s6 s7 ret_def)
  moreover from k7 have "sql_of (trace (world s7)) = sql_of (trace w) @ update_statements ?rp uc"
    by (simp add: kept_def update_statements_def start_def)
  ultimately show ?thesis by blast
qed

text \<open>
  C10. An Update never fails with the collision error, whatever the two secrets resolve
  to. With both secrets resolving to the same username, a valid token and a server that
  accepts every call, it returns the token and has sent exactly the statements its policies
  select, in the order of the five steps.
\<close>

theorem update_no_collision_check:
  "fst (handleUpdate env event w) \<noteq> Inl collisionError
   \<and> ((\<forall>c d. fst (pg_connect env c d) = None) \<and>
       (\<forall>c q d. fst (pg_query env c q d) = None) \<and>
       (\<forall>c d. fst (pg_end env c d) = None) \<and>
       getSecretValue env (userSecretArn (ResourceProperties event)) = Inr uc \<and>
       getSecretValue env (dbSecretArn (ResourceProperties event)) = Inr ac \<and>
       username uc = username ac \<and>
       PhysicalResourceId event =
         join ''/'' [dbClusterHostname (ResourceProperties event),
                     databaseName (ResourceProperties event), username uc]
       \<longrightarrow> fst (handleUpdate env event w) = Inr \<lparr>r_PhysicalResourceId = PhysicalResourceId event\<rparr> \<and>
           sql_of (trace (snd (handleUpdate env event w))) =
             sql_of (trace w) @ update_statements (ResourceProperties event) uc)"
proof (intro conjI impI)
  show "fst (handleUpdate env event w) \<noteq> Inl collisionError"
    by (rule handleUpdate_never_collision)
next
  assume a: "(\<forall>c d. fst (pg_connect env c d) = None) \<and>
       (\<forall>c q d. fst (pg_query env c q d) = None) \<and>
       (\<forall>c d. fst (pg_end env c d) = None) \<and>
       getSecretValue env (userSecretArn (ResourceProperties event)) = Inr uc \<and>
       getSecretValue env (dbSecretArn (ResourceProperties event)) = Inr ac \<and>
       username uc = username ac \<and>
       PhysicalResourceId event =
         join ''/'' [dbClusterHostname (ResourceProperties event),
                     databaseName (ResourceProperties event), username uc]"
  then obtain st' where "handleUpdate_run env event (start (ResourceProperties event) w)
            = (Inr \<lparr>r_PhysicalResourceId = PhysicalResourceId event\<rparr>, st')"
      "sql_of (trace (world st')) = sql_of (trace w) @ update_statements (ResourceProperties event) uc"
    using handleUpdate_run_accepted [of env event uc ac w] by blast
  then show "fst (handleUpdate env event w) = Inr \<lparr>r_PhysicalResourceId = PhysicalResourceId event\<rparr>"
    and "sql_of (trace (snd (handleUpdate env event w))) =
             sql_of (trace w) @ update_statements (ResourceProperties event) uc"
    by (simp_all add: handleUpdate_def finish_def)
qed

theorem update_no_collision_check_witness:
  "fst (handleUpdate (accepting secrets_same)
     \<lparr>ResourceProperties = props_demo\<lparr>onUpdateSetUserPassword := Always, onUpdateIfUserDoesNotExist := Create\<rparr>,
      PhysicalResourceId = ''db.local/app/svc''\<rparr> w0) = Inr \<lparr>r_PhysicalResourceId = ''db.local/app/svc''\<rparr>
   \<and> sql_of (trace (snd (handleUpdate (accepting secrets_same)
     \<lparr>ResourceProperties = props_demo\<lparr>onUpdateSetUserPassword := Always, onUpdateIfUserDoesNotExist := Create\<rparr>,
      PhysicalResourceId = ''db.local/app/svc''\<rparr> w0)))
     = [''CREATE USER svc WITH PASSWORD '' @ sq @ ''svcpw'' @ sq @ '' CREATEDB LOGIN;'',
        ''ALTER USER svc WITH PASSWORD '' @ sq @ ''svcpw'' @ sq @ '';'']"
  using update_no_collision_check [of "accepting secrets_same"
     "\<lparr>ResourceProperties = props_demo\<lparr>onUpdateSetUserPassword := Always, onUpdateIfUserDoesNotExist := Create\<rparr>,
      PhysicalResourceId = ''db.local/app/svc''\<rparr>" w0
     "\<lparr>username = ''svc'', password = ''svcpw''\<rparr>" "\<lparr>username = ''svc'', password = ''svcpw''\<rparr>"]
  by (simp add: demo_defs update_statements_def sql_defs)

section \<open>The defaults of the policies\<close>

text \<open>The port written by the construct is read back by the schema; so are the policies.\<close>

lemma digit_char_is_digit: "d < 10 \<Longrightarrow> is_digit (digit_char d)"
  unfolding is_digit_def digit_char_def by (rule nth_mem) simp

lemma digit_cases: "d < 10 \<Longrightarrow> d \<in> {0, 1, 2, 3, 4, 5, 6, 7, 8, 9 :: nat}"
  by auto

lemma digit_char_value: "d < 10 \<Longrightarrow> of_char (digit_char d) - 48 = d"
  by (drule digit_cases) (auto simp: digit_char_def)

lemma digits_value_snoc: "digits_value (xs @ [c]) = 10 * digits_value xs + (of_char c - 48)"
  by (simp add: digits_value_def)

lemma decimal_not_empty: "decimal n \<noteq> []"
  by (subst decimal.simps) simp

lemma decimal_digits: "list_all is_digit (decimal n)"
  by (induction n rule: decimal.induct) (subst decimal.simps, simp add: digit_char_is_digit)

lemma digits_value_decimal: "digits_value (decimal n) = n"
proof (induction n rule: decimal.induct)
  case (1 n)
  show ?case
  proof (cases "n < 10")
    case True
    then show ?thesis
      by (subst decimal.simps) (simp add: digits_value_def digit_char_value)
  next
    case False
    with 1 have "digits_value (decimal (n div 10)) = n div 10" by simp
    with False show ?thesis
      by (subst decimal.simps) (simp add: digits_value_snoc digit_char_value)
  qed
qed

lemma z_port_decimal: "z_port (JStr (decimal n)) = Some n"
  by (simp add: decimal_not_empty decimal_digits digits_value_decimal)

lemma z_enum_names:
  "z_enum [(''Delete'', Delete), (''Retain'', Retain)] (JStr (OnDelete_name a)) = Some a"
  "z_enum [(''Fail'', Fail), (''Adopt'', Adopt), (''DeleteAndRecreate'', DeleteAndRecreate)]
     (JStr (OnCreateIfExists_name b)) = Some b"
  "z_enum [(''Ignore'', Ignore), (''Create'', Create)] (JStr (IgnoreOrCreate_name c)) = Some c"
  "z_enum [(''Always'', Always), (''Never'', Never)] (JStr (AlwaysOrNever_name d)) = Some d"
  by ((cases a; simp), (cases b; simp), (cases c; simp), (cases d; simp))

text \<open>What the handler's schema makes of the request the construct builds.\<close>

lemma schema_of_request:
  "customResourcePropertiesSchema (resource_properties p) =
     Some \<lparr>dbClusterHostname = p_hostname p, dbClusterPort = p_port p,
           dbSecretArn = p_dbSecretArn p, userSecretArn = p_userSecretArn p,
           databaseName = p_databaseName p,
           onDelete = nullish (p_onDelete p) Delete,
           onCreateIfExists = nullish (p_onCreateIfExists p) Fail,
           onUpdateIfUserDoesNotExist = nullish (p_onUpdateIfUserDoesNotExist p) Ignore,
           onUpdateIfDatabaseDoesNotExist = nullish (p_onUpdateIfDatabaseDoesNotExist p) Ignore,
           onUpdateSetUserPassword = nullish (p_onUpdateSetUserPassword p) Never,
           onUpdateSetUserPermissions = nullish (p_onUpdateSetUserPermissions p) Never,
           onUpdateSetDatabaseOwnership = nullish (p_onUpdateSetDatabaseOwnership p) Never\<rparr>"
  by (simp add: customResourcePropertiesSchema_def resource_properties_def z_port_decimal z_enum_names
      del: z_enum.simps z_port.simps)

text \<open>
  C8. The request the construct builds is accepted by the handler's schema, and a policy
  the caller of the construct leaves out is read by the handler as the safe choice: Fail,
  Delete, Ignore, Ignore, Never, Never, Never.
\<close>

theorem construct_defaults:
  "\<exists>rp. customResourcePropertiesSchema (resource_properties p) = Some rp
     \<and> (p_onCreateIfExists p = None \<longrightarrow> onCreateIfExists rp = Fail)
     \<and> (p_onDelete p = None \<longrightarrow> onDelete rp = Delete)
     \<and> (p_onUpdateIfUserDoesNotExist p = None \<longrightarrow> onUpdateIfUserDoesNotExist rp = Ignore)
     \<and> (p_onUpdateIfDatabaseDoesNotExist p = None \<longrightarrow> onUpdateIfDatabaseDoesNotExist rp = Ignore)
     \<and> (p_onUpdateSetUserPassword p = None \<longrightarrow> onUpdateSetUserPassword rp = Never)
     \<and> (p_onUpdateSetUserPermissions p = None \<longrightarrow> onUpdateSetUserPermissions rp = Never)
     \<and> (p_onUpdateSetDatabaseOwnership p = None \<longrightarrow> onUpdateSetDatabaseOwnership rp = Never)"
  by (simp add: schema_of_request)

theorem construct_defaults_witness:
  "p_onCreateIfExists construct_demo = None \<and> p_onDelete construct_demo = None
   \<and> p_onUpdateIfUserDoesNotExist construct_demo = None
   \<and> p_onUpdateIfDatabaseDoesNotExist construct_demo = None
   \<and> p_onUpdateSetUserPassword construct_demo = None
   \<and> p_onUpdateSetUserPermissions construct_demo = None
   \<and> p_onUpdateSetDatabaseOwnership construct_demo = None
   \<and> customResourcePropertiesSchema (resource_properties construct_demo) = Some props_demo
   \<and> onCreateIfExists props_demo = Fail \<and> onDelete props_demo = Delete
   \<and> onUpdateIfUserDoesNotExist props_demo = Ignore
   \<and> onUpdateIfDatabaseDoesNotExist props_demo = Ignore
   \<and> onUpdateSetUserPassword props_demo = Never
   \<and> onUpdateSetUserPermissions props_demo = Never
   \<and> onUpdateSetDatabaseOwnership props_demo = Never"
  using construct_defaults [of construct_demo]
  by (simp add: schema_of_request construct_demo_def props_demo_def)

text \<open>
  The handler's own schema has no default: a request in which one of the seven is
  missing is rejected, and decodeEvent raises.
\<close>

lemma schema_requires_policies:
  "raw_onDelete r = JUndefined \<or> raw_onCreateIfExists r = JUndefined \<or>
   raw_onUpdateIfUserDoesNotExist r = JUndefined \<or> raw_onUpdateIfDatabaseDoesNotExist r = JUndefined \<or>
   raw_onUpdateSetUserPassword r = JUndefined \<or> raw_onUpdateSetUserPermissions r = JUndefined \<or>
   raw_onUpdateSetDatabaseOwnership r = JUndefined
   \<Longrightarrow> customResourcePropertiesSchema r = None"
  by (auto simp: customResourcePropertiesSchema_def Option.bind_eq_None_conv)

lemma decodeEvent_requires_policies:
  assumes "raw_ResourceProperties event = Some r"
    and "raw_onDelete r = JUndefined \<or> raw_onCreateIfExists r = JUndefined \<or>
      raw_onUpdateIfUserDoesNotExist r = JUndefined \<or> raw_onUpdateIfDatabaseDoesNotExist r = JUndefined \<or>
      raw_onUpdateSetUserPassword r = JUndefined \<or> raw_onUpdateSetUserPermissions r = JUndefined \<or>
      raw_onUpdateSetDatabaseOwnership r = JUndefined"
  shows "decodeEvent event = Inl ZodError" and "handler env event w = (Inl ZodError, w)"
proof -
  from assms have "parse_properties event = None"
    by (simp add: parse_properties_def schema_requires_policies)
  then show "decodeEvent event = Inl ZodError"
    by (simp add: decodeEvent_def split: js.splits option.splits)
  then show "handler env event w = (Inl ZodError, w)"
    by (simp add: handler_def)
qed

section \<open>The secret-version handler\<close>

lemma onCreate_reads_properties:
  "ResourceProperties_v a = ResourceProperties_v b \<Longrightarrow> onCreate send a calls = onCreate send b calls"
  by (simp add: onCreate_def)

text \<open>
  C9. onUpdate answers what onCreate answers on the same event with its RequestType set to
  Create, and so does the handler on every event its Update schema accepts. onDelete
  answers the PhysicalResourceId it was given as LatestVersionId and sends no lookup; so
  does the handler on every event its Delete schema accepts.
\<close>

theorem update_is_create_delete_echoes:
  "onUpdate send event calls = onCreate send (event\<lparr>RequestType := ''Create''\<rparr>) calls
   \<and> (onUpdateSchema raw = Some event \<longrightarrow>
        handler_v send raw calls = handler_v send (raw\<lparr>raw_RequestType_v := JStr ''Create''\<rparr>) calls)
   \<and> onDelete_v devent calls =
        (Inr \<lparr>PhysicalResourceId_r = secretArn (ResourceProperties_v devent),
              Data = \<lparr>LatestVersionId = PhysicalResourceId_v devent\<rparr>\<rparr>, calls)
   \<and> (onDeleteSchema raw' = Some devent \<longrightarrow>
        handler_v send raw' calls =
          (Inr \<lparr>PhysicalResourceId_r = secretArn (ResourceProperties_v devent),
                Data = \<lparr>LatestVersionId = PhysicalResourceId_v devent\<rparr>\<rparr>, calls))"
proof (intro conjI impI)
  show "onUpdate send event calls = onCreate send (event\<lparr>RequestType := ''Create''\<rparr>) calls"
    by (simp add: onUpdate_def)
next
  assume "onUpdateSchema raw = Some event"
  then show "handler_v send raw calls = handler_v send (raw\<lparr>raw_RequestType_v := JStr ''Create''\<rparr>) calls"
    by (auto simp: handler_v_def schema_defs onUpdate_def
        intro: onCreate_reads_properties split: option.splits if_splits)
next
  show "onDelete_v devent calls =
        (Inr \<lparr>PhysicalResourceId_r = secretArn (ResourceProperties_v devent),
              Data = \<lparr>LatestVersionId = PhysicalResourceId_v devent\<rparr>\<rparr>, calls)"
    by (simp add: onDelete_v_def)
next
  assume "onDeleteSchema raw' = Some devent"
  then show "handler_v send raw' calls =
          (Inr \<lparr>PhysicalResourceId_r = secretArn (ResourceProperties_v devent),
                Data = \<lparr>LatestVersionId = PhysicalResourceId_v devent\<rparr>\<rparr>, calls)"
    by (auto simp: handler_v_def schema_defs onDelete_v_def split: option.splits if_splits)
qed

theorem update_is_create_witness:
  "onUpdateSchema raw_update_demo
     = Some \<lparr>ResourceProperties_v = \<lparr>secretArn = ''arn:user'', datetime = ''now''\<rparr>,
             RequestType = ''Update'', PhysicalResourceId_v = ''arn:user''\<rparr>
   \<and> handler_v service_demo (raw_update_demo\<lparr>raw_RequestType_v := JStr ''Create''\<rparr>) []
     = (Inr \<lparr>PhysicalResourceId_r = ''arn:user'', Data = \<lparr>LatestVersionId = ''v2''\<rparr>\<rparr>, [''arn:user''])
   \<and> handler_v service_demo raw_update_demo []
     = (Inr \<lparr>PhysicalResourceId_r = ''arn:user'', Data = \<lparr>LatestVersionId = ''v2''\<rparr>\<rparr>, [''arn:user''])"
proof -
  have s: "onUpdateSchema raw_update_demo
     = Some \<lparr>ResourceProperties_v = \<lparr>secretArn = ''arn:user'', datetime = ''now''\<rparr>,
             RequestType = ''Update'', PhysicalResourceId_v = ''arn:user''\<rparr>"
    by (simp add: schema_defs raw_update_demo_def)
  have c: "handler_v service_demo (raw_update_demo\<lparr>raw_RequestType_v := JStr ''Create''\<rparr>) []
     = (Inr \<lparr>PhysicalResourceId_r = ''arn:user'', Data = \<lparr>LatestVersionId = ''v2''\<rparr>\<rparr>, [''arn:user''])"
    by (simp add: handler_v_def schema_defs raw_update_demo_def onCreate_def service_demo_def Let_def)
  from update_is_create_delete_echoes [of service_demo _ "[]" raw_update_demo] s c
  show ?thesis by simp
qed

end
